theory Spec2Isabelle
  imports Main
begin

section \<open>Strings and arrays of the host language\<close>

text \<open>
  The plugin under \<^verbatim>\<open>packages/presets/client/src/typescript-ast-visitor/index.ts\<close>
  folds a GraphQL schema document, bottom-up, into TypeScript declarations held as text.
  A string is a \<^typ>\<open>string\<close>, one \<^typ>\<open>char\<close> for each code unit below 256 (GraphQL names
  are ASCII); the line separators U+2028 and U+2029 lie outside this alphabet.
\<close>

text \<open>\<^verbatim>\<open>Array.prototype.join\<close>.\<close>

fun join :: "string \<Rightarrow> string list \<Rightarrow> string" where
  "join sep [] = []"
| "join sep [x] = x"
| "join sep (x # y # ys) = x @ sep @ join sep (y # ys)"

text \<open>\<^verbatim>\<open>String.prototype.startsWith\<close>.\<close>

definition startsWith :: "string \<Rightarrow> string \<Rightarrow> bool" where
  "startsWith str p = (take (length p) str = p)"

text \<open>\<^verbatim>\<open>indent(str, count = 1)\<close>: \<^verbatim>\<open>count\<close> copies of two blanks before the text.\<close>

definition indent :: "string \<Rightarrow> nat \<Rightarrow> string" where
  "indent str count = concat (replicate count ''  '') @ str"

text \<open>
  The characters the dot of a regular expression refuses (no \<^verbatim>\<open>s\<close> flag): line feed and
  carriage return.
\<close>

definition lineTerminator :: "char \<Rightarrow> bool" where
  "lineTerminator c = (c = CHR 0x0A \<or> c = CHR 0x0D)"

text \<open>
  \<^verbatim>\<open>str.replace(/W<(.*?)>$/, '$1')\<close> for a wrapper name \<^verbatim>\<open>W\<close> (\<^verbatim>\<open>Maybe\<close> or
  \<^verbatim>\<open>InputMaybe\<close>). The expression is neither global nor multi-line, so the leftmost
  position where it matches is replaced, and \<^verbatim>\<open>$\<close> is the end of the string: the lazy
  group has to run up to the last character, which has to be \<^verbatim>\<open>>\<close>.
  \<open>matchAt\<close> is the attempt at the head of the string and gives the captured group.
\<close>

definition matchAt :: "string \<Rightarrow> string \<Rightarrow> string option" where
  "matchAt w str =
     (if startsWith str (w @ ''<'') then
        (let r = drop (length w + 1) str in
         if r \<noteq> [] \<and> last r = CHR ''>'' \<and> \<not> list_ex lineTerminator (butlast r)
         then Some (butlast r) else None)
      else None)"

fun replaceWrapper :: "string \<Rightarrow> string \<Rightarrow> string" where
  "replaceWrapper w [] = []"
| "replaceWrapper w (c # cs) =
     (case matchAt w (c # cs) of
        Some g \<Rightarrow> g
      | None \<Rightarrow> c # replaceWrapper w cs)"

section \<open>The schema document\<close>

text \<open>
  The kinds of the nodes that occur in a schema document (\<^verbatim>\<open>Kind\<close> of graphql-js).
\<close>

datatype kind =
    DOCUMENT | NAME | DIRECTIVE | ARGUMENT
  | NAMED_TYPE | LIST_TYPE | NON_NULL_TYPE
  | SCHEMA_DEFINITION | SCALAR_TYPE_DEFINITION | OBJECT_TYPE_DEFINITION | FIELD_DEFINITION
  | INPUT_VALUE_DEFINITION | INTERFACE_TYPE_DEFINITION | UNION_TYPE_DEFINITION
  | ENUM_TYPE_DEFINITION | INPUT_OBJECT_TYPE_DEFINITION | DIRECTIVE_DEFINITION

text \<open>
  A type reference. \<open>type_kind\<close> is \<^verbatim>\<open>node.kind\<close>.
\<close>

datatype type_node = NamedType string | ListType type_node | NonNullType type_node

fun type_kind :: "type_node \<Rightarrow> kind" where
  "type_kind (NamedType n) = NAMED_TYPE"
| "type_kind (ListType t) = LIST_TYPE"
| "type_kind (NonNullType t) = NON_NULL_TYPE"

text \<open>
  The \<^verbatim>\<open>name\<close> property of a node as it is at run time. The parser gives a \<^verbatim>\<open>Name\<close> node,
  whose text is read as \<^verbatim>\<open>name.value\<close>; the fold's \<^verbatim>\<open>Name.leave\<close> returns \<^verbatim>\<open>node.value\<close>,
  so below a node that has been left the property holds the bare string, and \<^verbatim>\<open>.value\<close> of
  a string is \<^verbatim>\<open>undefined\<close> (the source remarks on it twice: "Why the heck is node.name a
  string and not { value: string } at runtime ?!").
\<close>

datatype js_name = NameNode string | NameString string

fun name_value :: "js_name \<Rightarrow> string option" where
  "name_value (NameNode s) = Some s"
| "name_value (NameString s) = None"

text \<open>\<^verbatim>\<open>name as any as string\<close> used as a string: an object prints as \<^verbatim>\<open>[object Object]\<close>.\<close>

fun name_as_string :: "js_name \<Rightarrow> string" where
  "name_as_string (NameString s) = s"
| "name_as_string (NameNode s) = ''[object Object]''"

text \<open>\<^verbatim>\<open>Name.leave\<close>: \<^verbatim>\<open>return node.value\<close>.\<close>

fun Name_leave :: "js_name \<Rightarrow> js_name" where
  "Name_leave (NameNode s) = NameString s"
| "Name_leave (NameString s) = NameString s"

text \<open>
  A value literal: its kind (\<^verbatim>\<open>StringValue\<close>, \<^verbatim>\<open>IntValue\<close>, ...) and its text. No handler
  of the fold touches it.
\<close>

record value_node =
  value_kind :: string
  value_text :: string

record argument_node =
  arg_name :: js_name
  arg_value :: value_node

text \<open>An absent or empty \<^verbatim>\<open>arguments\<close>, \<^verbatim>\<open>directives\<close> or \<^verbatim>\<open>fields\<close> array is the empty list.\<close>

record directive_node =
  dir_name :: js_name
  dir_arguments :: "argument_node list"

text \<open>
  A description is a \<^verbatim>\<open>StringValue\<close> node (here its text) or \<^verbatim>\<open>undefined\<close>; the fold leaves
  it as it is.
\<close>

record input_value_definition =
  ivd_description :: "string option"
  ivd_name :: string
  ivd_type :: type_node
  ivd_defaultValue :: "value_node option"
  ivd_directives :: "directive_node list"

record field_definition =
  fd_description :: "string option"
  fd_name :: string
  fd_arguments :: "input_value_definition list"
  fd_type :: type_node
  fd_directives :: "directive_node list"

text \<open>Object and interface type definitions have the same shape.\<close>

record object_type_definition =
  otd_description :: "string option"
  otd_name :: string
  otd_interfaces :: "string list"
  otd_directives :: "directive_node list"
  otd_fields :: "field_definition list"

record union_type_definition =
  utd_description :: "string option"
  utd_name :: string
  utd_directives :: "directive_node list"
  utd_types :: "string list"

record input_object_type_definition =
  iotd_description :: "string option"
  iotd_name :: string
  iotd_directives :: "directive_node list"
  iotd_fields :: "input_value_definition list"

record directive_definition =
  dd_name :: string
  dd_arguments :: "input_value_definition list"

text \<open>
  The definitions of the document that \<^verbatim>\<open>transformSchemaAST\<close> gives for a schema. Of a
  scalar, an enum and the schema definition the fold reads nothing but the kind.
\<close>

datatype definition_node =
    ObjectTypeDefinition object_type_definition
  | InterfaceTypeDefinition object_type_definition
  | UnionTypeDefinition union_type_definition
  | InputObjectTypeDefinition input_object_type_definition
  | ScalarTypeDefinition string
  | EnumTypeDefinition string
  | DirectiveDefinition directive_definition
  | SchemaDefinition

text \<open>
  An entry of the \<^verbatim>\<open>ancestors\<close> array that graphql-js hands to a handler: a node above the
  parent (its kind and, when it has one, its \<^verbatim>\<open>name.value\<close>), or the array a node sits in
  (the kinds of its elements). The parent itself is not in the array.
\<close>

datatype ancestor = AncestorNode kind "string option" | AncestorArray "kind list"

section \<open>Configuration and collaborators\<close>

text \<open>
  The options of \<^verbatim>\<open>TypeScriptPluginConfig\<close> that the file reads. An absent flag is
  \<open>False\<close>, an absent string is \<open>None\<close>. \<^verbatim>\<open>avoidOptionals\<close> is absent, a boolean or an
  object of flags.
\<close>

record avoid_optionals_config =
  ao_field :: bool
  ao_inputValue :: bool
  ao_defaultValue :: bool

datatype avoid_optionals =
    AvoidOptionalsUndefined
  | AvoidOptionalsBoolean bool
  | AvoidOptionalsObject avoid_optionals_config

record config =
  avoidOptionals :: avoid_optionals
  directiveArgumentAndInputFieldMappings :: "(string \<times> string) list option"
  immutableTypes :: bool
  onlyOperationTypes :: bool
  onlyEnums :: bool
  futureProofUnions :: bool
  noExport :: bool
  nonOptionalTypename :: bool
  skipTypename :: bool
  addUnderscoreToArgsType :: bool
  enumPrefix :: "bool option"
  typesPrefix :: "string option"
  fieldWrapperValue :: "string option"
  wrapFieldDefinitions :: bool
  wrapEntireFieldDefinitions :: bool
  entireFieldWrapperValue :: "string option"
  maybeValue :: "string option"
  inputMaybeValue :: "string option"
  useTypeImports :: "bool option"

text \<open>Truthiness of an optional string: absent and empty are falsy.\<close>

fun truthy :: "string option \<Rightarrow> bool" where
  "truthy None = False"
| "truthy (Some s) = (s \<noteq> [])"

text \<open>An entry of \<^verbatim>\<open>ParsedScalarsMap\<close>.\<close>

record parsed_mapper =
  pm_type :: string
  pm_isExternal :: bool
  pm_import :: string
  pm_source :: string
  pm_default :: bool

text \<open>
  What \<^verbatim>\<open>schema.getType(name)\<close> tells the fold about a named type: whether it is an enum,
  or an input object with its \<^verbatim>\<open>isOneOf\<close> flag and the keys of \<^verbatim>\<open>getFields()\<close> in
  declaration order.
\<close>

datatype schema_type = EnumType | InputObjectType bool "string list" | OtherType

text \<open>
  The text handed to a comment: \<^verbatim>\<open>undefined\<close> or \<^verbatim>\<open>null\<close>, a description node, or a string.
\<close>

datatype comment_text = NoComment | DescriptionNode string | CommentString string

fun comment_of_description :: "string option \<Rightarrow> comment_text" where
  "comment_of_description None = NoComment"
| "comment_of_description (Some d) = DescriptionNode d"

fun comment_truthy :: "comment_text \<Rightarrow> bool" where
  "comment_truthy NoComment = False"
| "comment_truthy (DescriptionNode d) = True"
| "comment_truthy (CommentString s) = (s \<noteq> [])"

text \<open>A comment text inside a template literal.\<close>

fun comment_toString :: "comment_text \<Rightarrow> string" where
  "comment_toString NoComment = ''undefined''"
| "comment_toString (DescriptionNode d) = ''[object Object]''"
| "comment_toString (CommentString s) = s"

text \<open>
  Modelled from the spec: the class \<^verbatim>\<open>DeclarationBlock\<close>, imported from
  \<^verbatim>\<open>@graphql-codegen/visitor-plugin-common\<close>, is not among the source files. The spec
  (4.3) gives a declaration block a target identifier, a kind, an optional leading
  comment, an optional export modifier and a body. The record holds these as the builder
  calls of this file set them: \<^verbatim>\<open>export()\<close>, \<^verbatim>\<open>asKind\<close>, \<^verbatim>\<open>withName\<close>, \<^verbatim>\<open>withComment\<close> (the
  argument as it is passed), and for the body \<^verbatim>\<open>withContent\<close> and \<^verbatim>\<open>withBlock\<close>. The getter
  \<^verbatim>\<open>string\<close>, which prints the block, is a collaborator (\<open>blockString\<close> below).
\<close>

record declaration_block =
  db_enumNameValueSeparator :: string
  db_ignoreExport :: bool
  db_export :: bool
  db_kind :: "string option"
  db_name :: "string option"
  db_comment :: comment_text
  db_content :: "string option"
  db_block :: "string option"

definition newDeclarationBlock :: "string \<Rightarrow> bool \<Rightarrow> declaration_block" where
  "newDeclarationBlock separator ignoreExport =
     \<lparr>db_enumNameValueSeparator = separator, db_ignoreExport = ignoreExport,
      db_export = False, db_kind = None, db_name = None, db_comment = NoComment,
      db_content = None, db_block = None\<rparr>"

definition export :: "declaration_block \<Rightarrow> declaration_block" where
  "export b = b\<lparr>db_export := True\<rparr>"

definition asKind :: "string \<Rightarrow> declaration_block \<Rightarrow> declaration_block" where
  "asKind k b = b\<lparr>db_kind := Some k\<rparr>"

definition withName :: "string \<Rightarrow> declaration_block \<Rightarrow> declaration_block" where
  "withName n b = b\<lparr>db_name := Some n\<rparr>"

definition withComment :: "comment_text \<Rightarrow> declaration_block \<Rightarrow> declaration_block" where
  "withComment c b = b\<lparr>db_comment := c\<rparr>"

definition withContent :: "string \<Rightarrow> declaration_block \<Rightarrow> declaration_block" where
  "withContent c b = b\<lparr>db_content := Some c\<rparr>"

definition withBlock :: "string \<Rightarrow> declaration_block \<Rightarrow> declaration_block" where
  "withBlock c b = b\<lparr>db_block := Some c\<rparr>"

text \<open>The argument of the naming function: a node (its kind and name) or a string.\<close>

datatype name_source = FromNode kind string | FromString string

text \<open>
  The collaborators the file imports or builds with imported code, taken as parameters:
  \<^item> \<open>convert\<close>: \<^verbatim>\<open>convertFactory({ namingConvention: 'keep' })\<close>, called with a node or a
    string and the \<^verbatim>\<open>prefix\<close> and \<^verbatim>\<open>suffix\<close> options;
  \<^item> \<open>transformComment\<close>: \<^verbatim>\<open>transformComment(text, indentLevel)\<close>;
  \<^item> \<open>blockString\<close>: the getter \<^verbatim>\<open>string\<close> of a declaration block;
  \<^item> \<open>getType\<close>: \<^verbatim>\<open>getType\<close> of the transformed schema;
  \<^item> \<open>scalarsMap\<close>: the result of \<^verbatim>\<open>buildScalarsFromConfig\<close>, in key order;
  \<^item> the texts printed by the TypeScript printer (the scalars declaration after the
    indentation rewrite, the directive mappings declaration, the enum and directive
    imports) and the introspection definitions.
\<close>

record env =
  convert :: "name_source \<Rightarrow> string option \<Rightarrow> string option \<Rightarrow> string"
  transformComment :: "comment_text \<Rightarrow> nat \<Rightarrow> string"
  blockString :: "declaration_block \<Rightarrow> string"
  getType :: "string \<Rightarrow> schema_type option"
  scalarsMap :: "(string \<times> parsed_mapper) list"
  scalarsTypeDeclaration :: string
  printedDirectives :: string
  enumImportsDeclaration :: string
  directiveImportsDeclaration :: string
  introspectionDefinitions :: "string list"

text \<open>
  Modelled from the spec: \<^verbatim>\<open>isOneOfInputObjectType\<close>, imported from
  \<^verbatim>\<open>@graphql-codegen/visitor-plugin-common\<close>, is not among the source files. The spec (4.4)
  speaks of the input-object types "flagged by the schema as exactly one field must be
  set": the type is an input object and its flag is set.
\<close>

fun isOneOfInputObjectType :: "schema_type option \<Rightarrow> bool" where
  "isOneOfInputObjectType (Some (InputObjectType isOneOf fs)) = isOneOf"
| "isOneOfInputObjectType _ = False"

text \<open>\<^verbatim>\<open>isEnumType\<close> of graphql-js.\<close>

fun isEnumType :: "schema_type \<Rightarrow> bool" where
  "isEnumType EnumType = True"
| "isEnumType _ = False"

text \<open>\<^verbatim>\<open>Object.keys(parentType.getFields())\<close>.\<close>

fun getFields :: "schema_type option \<Rightarrow> string list" where
  "getFields (Some (InputObjectType isOneOf fs)) = fs"
| "getFields _ = []"

section \<open>The helper functions of the file\<close>

text \<open>
  Every block of the file is made by
  \<^verbatim>\<open>new DeclarationBlock({ enumNameValueSeparator: ' =', ignoreExport: config.noExport })\<close>.
\<close>

definition declarationBlockFor :: "config \<Rightarrow> declaration_block" where
  "declarationBlockFor cfg = newDeclarationBlock '' ='' (noExport cfg)"

text \<open>
  \<^verbatim>\<open>getDeprecationReason(directive)\<close>: \<open>None\<close> is the \<^verbatim>\<open>void\<close> return. The name is compared
  as a string; with arguments, the reason is \<^verbatim>\<open>directive.arguments[0].value.kind\<close>.
\<close>

definition getDeprecationReason :: "directive_node \<Rightarrow> string option" where
  "getDeprecationReason directive =
     (if dir_name directive = NameString ''deprecated'' then
        (let hasArguments = (dir_arguments directive \<noteq> []) in
         Some (if hasArguments then value_kind (arg_value (hd (dir_arguments directive)))
               else ''Field no longer supported''))
      else None)"

text \<open>
  \<^verbatim>\<open>getNodeComment(node)\<close>, from \<^verbatim>\<open>node.description\<close> and \<^verbatim>\<open>node.directives\<close> of the node
  being left. The directive is looked for with \<^verbatim>\<open>v.name.value === 'deprecated'\<close>; a void
  reason prints as \<^verbatim>\<open>undefined\<close> in the template.
\<close>

definition getNodeComment :: "env \<Rightarrow> string option \<Rightarrow> directive_node list \<Rightarrow> string" where
  "getNodeComment env description directives =
     (let commentText = comment_of_description description;
          deprecationDirective =
            find (\<lambda>v. name_value (dir_name v) = Some ''deprecated'') directives;
          commentText =
            (case deprecationDirective of
               None \<Rightarrow> commentText
             | Some d \<Rightarrow>
                 (let deprecationReason =
                        (case getDeprecationReason d of None \<Rightarrow> ''undefined'' | Some r \<Rightarrow> r)
                  in CommentString
                       ((if comment_truthy commentText
                         then comment_toString commentText @ [CHR 0x0A] else [])
                        @ ''@deprecated '' @ deprecationReason)))
      in transformComment env commentText 1)"

text \<open>
  \<^verbatim>\<open>getKindsFromAncestors\<close>: a node gives its kind, an array the array of its elements'
  kinds; \<^verbatim>\<open>filter(Boolean)\<close> keeps both (a kind is a non-empty string, an array is truthy).
\<close>

definition getKindsFromAncestors :: "ancestor list \<Rightarrow> (kind + kind list) list" where
  "getKindsFromAncestors ancestors =
     map (\<lambda>t. case t of AncestorArray ks \<Rightarrow> Inr ks | AncestorNode k n \<Rightarrow> Inl k) ancestors"

definition MaybeString :: "ancestor list \<Rightarrow> string \<Rightarrow> string" where
  "MaybeString ancestors children =
     (let currentVisitContext = getKindsFromAncestors ancestors;
          isInputContext = (Inl INPUT_OBJECT_TYPE_DEFINITION \<in> set currentVisitContext)
      in if isInputContext then ''InputMaybe<'' @ children @ ''>''
         else ''Maybe<'' @ children @ ''>'')"

text \<open>The \<^verbatim>\<open>options\<close> argument of \<^verbatim>\<open>convertName\<close>; \<open>None\<close> when it is left out.\<close>

record convert_options =
  opt_useTypesPrefix :: "bool option"
  opt_useTypesSuffix :: "bool option"
  opt_typesPrefix :: "string option"
  opt_typesSuffix :: "string option"

definition convertName :: "env \<Rightarrow> name_source \<Rightarrow> convert_options option \<Rightarrow> string" where
  "convertName env node options =
     (let useTypesPrefix =
            (case Option.bind options opt_useTypesPrefix of Some b \<Rightarrow> b | None \<Rightarrow> True);
          useTypesSuffix =
            (case Option.bind options opt_useTypesSuffix of Some b \<Rightarrow> b | None \<Rightarrow> True);
          typesPrefix = Option.bind options opt_typesPrefix;
          typesSuffix = Option.bind options opt_typesSuffix
      in (if useTypesPrefix \<and> truthy typesPrefix then the typesPrefix else [])
         @ convert env node typesPrefix typesSuffix
         @ (if useTypesSuffix \<and> truthy typesSuffix then the typesSuffix else []))"

definition mergeInterfaces :: "string list \<Rightarrow> bool \<Rightarrow> string" where
  "mergeInterfaces interfaces hasOtherFields =
     join '' & '' interfaces
     @ (if interfaces \<noteq> [] \<and> hasOtherFields then '' & '' else [])"

definition appendInterfacesAndFieldsToBlock ::
  "declaration_block \<Rightarrow> string list \<Rightarrow> string list \<Rightarrow> declaration_block" where
  "appendInterfacesAndFieldsToBlock block interfaces fieldList =
     withBlock (join [CHR 0x0A] fieldList)
       (withContent (mergeInterfaces interfaces (fieldList \<noteq> [])) block)"

text \<open>
  An object type definition as its \<^verbatim>\<open>leave\<close> handler sees it: the name is a string and
  every field is the text its own handler returned.
\<close>

record folded_type_definition =
  ftd_description :: "string option"
  ftd_name :: string
  ftd_fields :: "string list"

text \<open>
  The synthetic discriminant line that \<^verbatim>\<open>getObjectTypeDeclarationBlock\<close> puts before the
  fields of an object type unless \<^verbatim>\<open>skipTypename\<close> is set.
\<close>

definition typenameField :: "config \<Rightarrow> string \<Rightarrow> string" where
  "typenameField cfg name =
     (let optionalTypename = (if nonOptionalTypename cfg then ''__typename'' else ''__typename?'')
      in indent ((if immutableTypes cfg then ''readonly '' else [])
                 @ optionalTypename @ '': '' @ [CHR 0x27] @ name @ [CHR 0x27] @ '';'') 1)"

definition getObjectTypeDeclarationBlock ::
  "env \<Rightarrow> folded_type_definition \<Rightarrow> object_type_definition \<Rightarrow> config \<Rightarrow> declaration_block" where
  "getObjectTypeDeclarationBlock env node originalNode cfg =
     (let allFields =
            (if skipTypename cfg then [] else [typenameField cfg (ftd_name node)])
            @ ftd_fields node;
          interfacesNames =
            map (\<lambda>i. convertName env (FromNode NAMED_TYPE i) None) (otd_interfaces originalNode);
          declarationBlock =
            withComment (comment_of_description (ftd_description node))
              (withName (convertName env (FromNode OBJECT_TYPE_DEFINITION (ftd_name node)) None)
                (asKind ''type'' (export (declarationBlockFor cfg))))
      in appendInterfacesAndFieldsToBlock declarationBlock interfacesNames allFields)"

text \<open>
  \<^verbatim>\<open>buildArgumentsBlock(node, config)\<close>, on the original (not folded) definition of an
  object or interface type. \<open>argumentsName\<close> is the variable \<^verbatim>\<open>name\<close> and
  \<open>argumentsDeclaration\<close> the block built for one field, before its \<^verbatim>\<open>string\<close> is taken.
\<close>

definition argumentsName :: "env \<Rightarrow> object_type_definition \<Rightarrow> config \<Rightarrow> field_definition \<Rightarrow> string" where
  "argumentsName env node cfg field =
     otd_name node
     @ (if addUnderscoreToArgsType cfg then ''_'' else [])
     @ convertName env (FromNode FIELD_DEFINITION (fd_name field))
         (Some \<lparr>opt_useTypesPrefix = Some False, opt_useTypesSuffix = Some False,
                opt_typesPrefix = None, opt_typesSuffix = None\<rparr>)
     @ ''Args''"

definition argumentsDeclaration ::
  "env \<Rightarrow> object_type_definition \<Rightarrow> config \<Rightarrow> field_definition \<Rightarrow> declaration_block" where
  "argumentsDeclaration env node cfg field =
     withComment (comment_of_description (otd_description node))
       (withName (convertName env (FromString (argumentsName env node cfg field)) None)
         (asKind ''type'' (export (declarationBlockFor cfg))))"

definition buildArgumentsBlock :: "env \<Rightarrow> object_type_definition \<Rightarrow> config \<Rightarrow> string" where
  "buildArgumentsBlock env node cfg =
     (let fieldsWithArguments = filter (\<lambda>field. fd_arguments field \<noteq> []) (otd_fields node)
      in join [CHR 0x0A]
           (map (\<lambda>field.
                   if onlyEnums cfg then []
                   else blockString env (argumentsDeclaration env node cfg field))
              fieldsWithArguments))"

text \<open>
  The scalar map and the directive mappings are plain objects, read with \<^verbatim>\<open>object[name]\<close>:
  a name that is no key of the object still finds the properties every object inherits,
  and these are truthy (functions, and the prototype itself for \<^verbatim>\<open>__proto__\<close>).
\<close>

definition inheritedProperties :: "string list" where
  "inheritedProperties =
     [''constructor'', ''__defineGetter__'', ''__defineSetter__'', ''hasOwnProperty'',
      ''__lookupGetter__'', ''__lookupSetter__'', ''isPrototypeOf'', ''propertyIsEnumerable'',
      ''toString'', ''valueOf'', ''__proto__'', ''toLocaleString'']"

text \<open>
  Truthiness of \<^verbatim>\<open>scalars[typename]\<close>: the name is a key of the scalar map (its values are
  objects), or an inherited property.
\<close>

definition scalarsEntry :: "env \<Rightarrow> string \<Rightarrow> bool" where
  "scalarsEntry env typename =
     (map_of (scalarsMap env) typename \<noteq> None \<or> typename \<in> set inheritedProperties)"

definition getTypeForNode :: "env \<Rightarrow> string \<Rightarrow> config \<Rightarrow> string" where
  "getTypeForNode env typename cfg =
     (if scalarsEntry env typename then
        ''Scalars['' @ [CHR 0x27] @ typename @ [CHR 0x27] @ '']''
      else
        (case getType env typename of
           Some schemaType \<Rightarrow>
             if isEnumType schemaType then
               convertName env (FromNode NAMED_TYPE typename)
                 (Some \<lparr>opt_useTypesPrefix = enumPrefix cfg, opt_useTypesSuffix = None,
                        opt_typesPrefix = typesPrefix cfg, opt_typesSuffix = None\<rparr>)
             else convertName env (FromNode NAMED_TYPE typename) None
         | None \<Rightarrow> convertName env (FromNode NAMED_TYPE typename) None))"

definition clearOptional :: "string \<Rightarrow> string" where
  "clearOptional str =
     (if startsWith str ''Maybe'' then replaceWrapper ''Maybe'' str else str)"

text \<open>
  Truthiness of \<^verbatim>\<open>config.directiveArgumentAndInputFieldMappings?.[directiveName]\<close>: a key
  with a non-empty string, or, for a name that is no key, an inherited property.
\<close>

definition directiveMapping :: "config \<Rightarrow> string \<Rightarrow> bool" where
  "directiveMapping cfg directiveName =
     (case directiveArgumentAndInputFieldMappings cfg of
        None \<Rightarrow> False
      | Some m \<Rightarrow>
          (case map_of m directiveName of
             Some v \<Rightarrow> v \<noteq> []
           | None \<Rightarrow> directiveName \<in> set inheritedProperties))"

text \<open>
  \<^verbatim>\<open>_getDirectiveOverrideType\<close>: the last directive with a truthy entry in the mappings.
\<close>

definition getDirectiveOverrideType :: "directive_node list \<Rightarrow> config \<Rightarrow> string option" where
  "getDirectiveOverrideType directives cfg =
     (let types =
            map (\<lambda>directive.
                   (let directiveName = name_as_string (dir_name directive)
                    in if directiveMapping cfg directiveName
                       then Some (''DirectiveArgumentAndInputFieldMappings['' @ [CHR 0x27]
                                  @ directiveName @ [CHR 0x27] @ '']'')
                       else None))
              directives
      in case find (\<lambda>a. a \<noteq> None) (rev types) of Some t \<Rightarrow> t | None \<Rightarrow> None)"

section \<open>The \<^verbatim>\<open>leave\<close> handlers of the fold\<close>

text \<open>
  A handler gets the node with its children already replaced by what their handlers
  returned (\<open>node\<close>), the original node where it reads \<^verbatim>\<open>parent[key]\<close>
  (\<open>originalNode\<close>), and the \<^verbatim>\<open>ancestors\<close> array. What the source throws is a value:
  \<open>Error\<close> with its message, or a \<open>TypeError\<close> for reading a property of \<^verbatim>\<open>undefined\<close>.
\<close>

datatype error = Error string | TypeError

record folded_input_value =
  fiv_description :: "string option"
  fiv_name :: string
  fiv_type :: string
  fiv_defaultValue :: "value_node option"
  fiv_directives :: "directive_node list"

record folded_field =
  ff_description :: "string option"
  ff_name :: string
  ff_arguments :: "string list"
  ff_type :: string
  ff_directives :: "directive_node list"

text \<open>\<^verbatim>\<open>buildFieldDefinition(isOneOf = false)\<close>, with the variables it closes over.\<close>

definition buildFieldDefinition :: "string \<Rightarrow> string \<Rightarrow> bool \<Rightarrow> string \<Rightarrow> bool \<Rightarrow> string" where
  "buildFieldDefinition readonlyPrefix name addOptionalSign fieldType isOneOf =
     readonlyPrefix @ name @ (if addOptionalSign \<and> \<not> isOneOf then ''?'' else []) @ '': ''
     @ (if isOneOf then clearOptional fieldType else fieldType) @ '';''"

text \<open>The loop over \<^verbatim>\<open>Object.keys(parentType.getFields())\<close> that fills \<^verbatim>\<open>fieldParts\<close>.\<close>

definition oneOfFieldParts :: "string \<Rightarrow> string list \<Rightarrow> string \<Rightarrow> string \<Rightarrow> string list" where
  "oneOfFieldParts readonlyPrefix fieldNames name selected =
     map (\<lambda>fieldName.
            if fieldName = name then selected
            else readonlyPrefix @ fieldName @ ''?: never;'')
       fieldNames"

definition nonNullableMessage :: string where
  "nonNullableMessage =
     ''Fields on an input object type can not be non-nullable. It seems like the schema was not validated.''"

text \<open>
  The variable \<^verbatim>\<open>type\<close> of \<^verbatim>\<open>InputValueDefinition.leave\<close>: the folded type, or the override
  of a directive when the configuration has directive mappings.
\<close>

definition inputValueType :: "config \<Rightarrow> folded_input_value \<Rightarrow> string" where
  "inputValueType cfg node =
     (if directiveArgumentAndInputFieldMappings cfg \<noteq> None then
        (case getDirectiveOverrideType (fiv_directives node) cfg of
           Some t \<Rightarrow> t
         | None \<Rightarrow> fiv_type node)
      else fiv_type node)"

definition InputValueDefinition_leave ::
  "env \<Rightarrow> config \<Rightarrow> ancestor list \<Rightarrow> input_value_definition \<Rightarrow> folded_input_value
     \<Rightarrow> error + string" where
  "InputValueDefinition_leave env cfg ancestors originalFieldNode node =
     (let avoidOptionalsConfig =
            (case avoidOptionals cfg of
               AvoidOptionalsObject c \<Rightarrow> c
             | _ \<Rightarrow> \<lparr>ao_field = False, ao_inputValue = False, ao_defaultValue = False\<rparr>);
          addOptionalSign =
            (\<not> ao_inputValue avoidOptionalsConfig \<and>
             (type_kind (ivd_type originalFieldNode) \<noteq> NON_NULL_TYPE \<or>
              (\<not> ao_defaultValue avoidOptionalsConfig \<and> fiv_defaultValue node \<noteq> None)));
          comment = getNodeComment env (fiv_description node) (fiv_directives node);
          fieldType = inputValueType cfg node;
          readonlyPrefix = (if immutableTypes cfg then ''readonly '' else [])
      in if ancestors = [] then
           Inr (comment
                @ indent (buildFieldDefinition readonlyPrefix (fiv_name node) addOptionalSign
                            fieldType False) 1)
         else
           (case last ancestors of
              AncestorNode k (Some realParentName) \<Rightarrow>
                (let parentType = getType env realParentName in
                 if isOneOfInputObjectType parentType then
                   (if type_kind (ivd_type originalFieldNode) = NON_NULL_TYPE then
                      Inl (Error nonNullableMessage)
                    else
                      Inr (comment
                           @ indent (''{ ''
                               @ join '' ''
                                   (oneOfFieldParts readonlyPrefix (getFields parentType)
                                      (fiv_name node)
                                      (buildFieldDefinition readonlyPrefix (fiv_name node)
                                         addOptionalSign fieldType True))
                               @ '' }'') 1))
                 else
                   Inr (comment
                        @ indent (buildFieldDefinition readonlyPrefix (fiv_name node)
                                    addOptionalSign fieldType False) 1))
            | _ \<Rightarrow> Inl TypeError))"

text \<open>
  The function mapped over \<^verbatim>\<open>originalNode.types\<close> in \<^verbatim>\<open>UnionTypeDefinition.leave\<close>.
\<close>

definition unionMember :: "env \<Rightarrow> string \<Rightarrow> string" where
  "unionMember env t =
     (if scalarsEntry env t
      then ''Scalars['' @ [CHR 0x27] @ t @ [CHR 0x27] @ '']''
      else convertName env (FromNode NAMED_TYPE t) None)"

definition UnionTypeDefinition_leave ::
  "env \<Rightarrow> config \<Rightarrow> folded_type_definition \<Rightarrow> union_type_definition \<Rightarrow> string" where
  "UnionTypeDefinition_leave env cfg node originalNode =
     (if onlyOperationTypes cfg \<or> onlyEnums cfg then []
      else
        (let withFutureAddedValue =
               (if futureProofUnions cfg then
                  [if immutableTypes cfg
                   then ''{ readonly __typename?: '' @ [CHR 0x22] @ ''%other'' @ [CHR 0x22] @ '' }''
                   else ''{ __typename?: '' @ [CHR 0x22] @ ''%other'' @ [CHR 0x22] @ '' }'']
                else []);
             possibleTypes =
               join '' | ''
                 (map (unionMember env) (utd_types originalNode) @ withFutureAddedValue)
         in blockString env
              (withContent possibleTypes
                (withComment (comment_of_description (ftd_description node))
                  (withName (convertName env (FromNode UNION_TYPE_DEFINITION (ftd_name node)) None)
                    (asKind ''type'' (export (declarationBlockFor cfg))))))))"

definition InterfaceTypeDefinition_leave ::
  "env \<Rightarrow> config \<Rightarrow> folded_type_definition \<Rightarrow> object_type_definition \<Rightarrow> string" where
  "InterfaceTypeDefinition_leave env cfg node originalNode =
     (if onlyOperationTypes cfg \<or> onlyEnums cfg then []
      else
        (let declarationBlock =
               withBlock (join [CHR 0x0A] (ftd_fields node))
                 (withComment (comment_of_description (ftd_description node))
                   (withName
                      (convertName env (FromNode INTERFACE_TYPE_DEFINITION (ftd_name node)) None)
                     (asKind ''interface'' (export (declarationBlockFor cfg)))))
         in join [CHR 0x0A, CHR 0x0A]
              (filter (\<lambda>f. f \<noteq> [])
                 [blockString env declarationBlock,
                  buildArgumentsBlock env originalNode cfg])))"

definition ObjectTypeDefinition_leave ::
  "env \<Rightarrow> config \<Rightarrow> folded_type_definition \<Rightarrow> object_type_definition \<Rightarrow> string" where
  "ObjectTypeDefinition_leave env cfg node originalNode =
     (if onlyOperationTypes cfg \<or> onlyEnums cfg then []
      else
        blockString env (getObjectTypeDeclarationBlock env node originalNode cfg)
        @ buildArgumentsBlock env originalNode cfg)"

definition InputObjectTypeDefinition_leave ::
  "env \<Rightarrow> config \<Rightarrow> folded_type_definition \<Rightarrow> string" where
  "InputObjectTypeDefinition_leave env cfg node =
     (if onlyEnums cfg then []
      else if isOneOfInputObjectType (getType env (ftd_name node)) then
        blockString env
          (withContent ([CHR 0x0A] @ join ([CHR 0x0A] @ ''  |'') (ftd_fields node))
            (withComment (comment_of_description (ftd_description node))
              (withName
                 (convertName env (FromNode INPUT_OBJECT_TYPE_DEFINITION (ftd_name node)) None)
                (asKind ''type'' (export (declarationBlockFor cfg))))))
      else
        blockString env
          (withBlock (join [CHR 0x0A] (ftd_fields node))
            (withComment (comment_of_description (ftd_description node))
              (withName
                 (convertName env (FromNode INPUT_OBJECT_TYPE_DEFINITION (ftd_name node)) None)
                (asKind ''type'' (export (declarationBlockFor cfg)))))))"

definition NamedType_leave :: "env \<Rightarrow> config \<Rightarrow> ancestor list \<Rightarrow> string \<Rightarrow> string" where
  "NamedType_leave env cfg ancestors typename =
     (let isVisitingInputType =
            (Inl INPUT_OBJECT_TYPE_DEFINITION \<in> set (getKindsFromAncestors ancestors));
          typeToUse = getTypeForNode env typename cfg;
          typeToUse =
            (if \<not> isVisitingInputType \<and> truthy (fieldWrapperValue cfg) \<and> wrapFieldDefinitions cfg
             then ''FieldWrapper<'' @ typeToUse @ ''>'' else typeToUse)
      in MaybeString ancestors typeToUse)"

definition ListType_leave :: "ancestor list \<Rightarrow> string \<Rightarrow> string" where
  "ListType_leave ancestors nodeType = MaybeString ancestors (''Array<'' @ nodeType @ ''>'')"

definition NonNullType_leave :: "string \<Rightarrow> string" where
  "NonNullType_leave nodeType =
     (if startsWith nodeType ''Maybe'' then replaceWrapper ''Maybe'' nodeType
      else if startsWith nodeType ''InputMaybe'' then replaceWrapper ''InputMaybe'' nodeType
      else nodeType)"

definition FieldDefinition_leave ::
  "env \<Rightarrow> config \<Rightarrow> field_definition \<Rightarrow> folded_field \<Rightarrow> string" where
  "FieldDefinition_leave env cfg originalFieldNode node =
     (let typeString =
            (if wrapFieldDefinitions cfg then ''EntireFieldWrapper<'' @ ff_type node @ ''>''
             else ff_type node);
          addOptionalSign =
            (\<not> (case avoidOptionals cfg of AvoidOptionalsObject c \<Rightarrow> ao_field c | _ \<Rightarrow> False)
             \<and> type_kind (fd_type originalFieldNode) \<noteq> NON_NULL_TYPE);
          comment = getNodeComment env (ff_description node) (ff_directives node)
      in comment
         @ indent ((if immutableTypes cfg then ''readonly '' else []) @ ff_name node
                   @ (if addOptionalSign then ''?'' else []) @ '': '' @ typeString @ '';'') 1)"

section \<open>The fold\<close>

text \<open>
  \<^verbatim>\<open>visit\<close> of graphql-js walks the document depth first and calls the \<^verbatim>\<open>leave\<close> handler of
  a node after its children; what a handler returns replaces the node in (a copy of) its
  parent. A handler is called with the \<^verbatim>\<open>ancestors\<close> above the parent; \<open>parent\<close> is the
  entry that joins them for the children. A handler that throws ends the walk: a list of
  children is folded from left to right up to the first error.
\<close>

fun fold_list :: "('a \<Rightarrow> 'e + 'b) \<Rightarrow> 'a list \<Rightarrow> 'e + 'b list" where
  "fold_list f [] = Inr []"
| "fold_list f (x # xs) =
     (case f x of
        Inl e \<Rightarrow> Inl e
      | Inr y \<Rightarrow> (case fold_list f xs of Inl e \<Rightarrow> Inl e | Inr ys \<Rightarrow> Inr (y # ys)))"

text \<open>
  A directive has no handler, but the names below it are replaced by strings, and so is
  the copy of the directive in the folded node.
\<close>

definition fold_directive :: "directive_node \<Rightarrow> directive_node" where
  "fold_directive d =
     \<lparr>dir_name = Name_leave (dir_name d),
      dir_arguments = map (\<lambda>a. a\<lparr>arg_name := Name_leave (arg_name a)\<rparr>) (dir_arguments d)\<rparr>"

fun fold_type :: "env \<Rightarrow> config \<Rightarrow> ancestor list \<Rightarrow> ancestor \<Rightarrow> type_node \<Rightarrow> string" where
  "fold_type env cfg ancestors parent (NamedType n) = NamedType_leave env cfg ancestors n"
| "fold_type env cfg ancestors parent (ListType t) =
     ListType_leave ancestors
       (fold_type env cfg (ancestors @ [parent]) (AncestorNode LIST_TYPE None) t)"
| "fold_type env cfg ancestors parent (NonNullType t) =
     NonNullType_leave
       (fold_type env cfg (ancestors @ [parent]) (AncestorNode NON_NULL_TYPE None) t)"

text \<open>An input value with its children folded, as its handler gets it.\<close>

definition folded_children ::
  "env \<Rightarrow> config \<Rightarrow> ancestor list \<Rightarrow> ancestor \<Rightarrow> input_value_definition \<Rightarrow> folded_input_value" where
  "folded_children env cfg ancestors parent originalNode =
     \<lparr>fiv_description = ivd_description originalNode,
      fiv_name = ivd_name originalNode,
      fiv_type =
        fold_type env cfg (ancestors @ [parent])
          (AncestorNode INPUT_VALUE_DEFINITION (Some (ivd_name originalNode)))
          (ivd_type originalNode),
      fiv_defaultValue = ivd_defaultValue originalNode,
      fiv_directives = map fold_directive (ivd_directives originalNode)\<rparr>"

definition fold_input_value ::
  "env \<Rightarrow> config \<Rightarrow> ancestor list \<Rightarrow> ancestor \<Rightarrow> input_value_definition \<Rightarrow> error + string" where
  "fold_input_value env cfg ancestors parent originalNode =
     InputValueDefinition_leave env cfg ancestors originalNode
       (folded_children env cfg ancestors parent originalNode)"

definition fold_field ::
  "env \<Rightarrow> config \<Rightarrow> ancestor list \<Rightarrow> ancestor \<Rightarrow> field_definition \<Rightarrow> error + string" where
  "fold_field env cfg ancestors parent originalNode =
     (let self = AncestorNode FIELD_DEFINITION (Some (fd_name originalNode)) in
      case fold_list (fold_input_value env cfg (ancestors @ [parent, self])
                   (AncestorArray (map (\<lambda>a. INPUT_VALUE_DEFINITION) (fd_arguments originalNode))))
             (fd_arguments originalNode) of
        Inl e \<Rightarrow> Inl e
      | Inr arguments \<Rightarrow>
          Inr (FieldDefinition_leave env cfg originalNode
                 \<lparr>ff_description = fd_description originalNode,
                  ff_name = fd_name originalNode,
                  ff_arguments = arguments,
                  ff_type = fold_type env cfg (ancestors @ [parent]) self (fd_type originalNode),
                  ff_directives = map fold_directive (fd_directives originalNode)\<rparr>))"

text \<open>
  What stands in \<^verbatim>\<open>definitions\<close> after the fold: the string a handler returned, or, for a
  definition without a handler (an enum), still an object.
\<close>

datatype js_value = JString string | JObject

fun js_truthy :: "js_value \<Rightarrow> bool" where
  "js_truthy (JString s) = (s \<noteq> [])"
| "js_truthy JObject = True"

fun js_toString :: "js_value \<Rightarrow> string" where
  "js_toString (JString s) = s"
| "js_toString JObject = ''[object Object]''"

fun definition_kind :: "definition_node \<Rightarrow> kind" where
  "definition_kind (ObjectTypeDefinition d) = OBJECT_TYPE_DEFINITION"
| "definition_kind (InterfaceTypeDefinition d) = INTERFACE_TYPE_DEFINITION"
| "definition_kind (UnionTypeDefinition d) = UNION_TYPE_DEFINITION"
| "definition_kind (InputObjectTypeDefinition d) = INPUT_OBJECT_TYPE_DEFINITION"
| "definition_kind (ScalarTypeDefinition n) = SCALAR_TYPE_DEFINITION"
| "definition_kind (EnumTypeDefinition n) = ENUM_TYPE_DEFINITION"
| "definition_kind (DirectiveDefinition d) = DIRECTIVE_DEFINITION"
| "definition_kind SchemaDefinition = SCHEMA_DEFINITION"

definition fold_fields ::
  "env \<Rightarrow> config \<Rightarrow> ancestor list \<Rightarrow> ancestor \<Rightarrow> kind \<Rightarrow> object_type_definition
     \<Rightarrow> error + folded_type_definition" where
  "fold_fields env cfg ancestors parent k d =
     (case fold_list (fold_field env cfg (ancestors @ [parent, AncestorNode k (Some (otd_name d))])
                   (AncestorArray (map (\<lambda>f. FIELD_DEFINITION) (otd_fields d))))
             (otd_fields d) of
        Inl e \<Rightarrow> Inl e
      | Inr fs \<Rightarrow>
          Inr \<lparr>ftd_description = otd_description d, ftd_name = otd_name d, ftd_fields = fs\<rparr>)"

definition fold_input_fields ::
  "env \<Rightarrow> config \<Rightarrow> ancestor list \<Rightarrow> ancestor \<Rightarrow> kind \<Rightarrow> string \<Rightarrow> input_value_definition list
     \<Rightarrow> error + string list" where
  "fold_input_fields env cfg ancestors parent k name inputValues =
     fold_list (fold_input_value env cfg (ancestors @ [parent, AncestorNode k (Some name)])
             (AncestorArray (map (\<lambda>f. INPUT_VALUE_DEFINITION) inputValues)))
       inputValues"

fun fold_definition ::
  "env \<Rightarrow> config \<Rightarrow> ancestor list \<Rightarrow> ancestor \<Rightarrow> definition_node \<Rightarrow> error + js_value" where
  "fold_definition env cfg ancestors parent (ObjectTypeDefinition d) =
     (case fold_fields env cfg ancestors parent OBJECT_TYPE_DEFINITION d of
        Inl e \<Rightarrow> Inl e
      | Inr node \<Rightarrow> Inr (JString (ObjectTypeDefinition_leave env cfg node d)))"
| "fold_definition env cfg ancestors parent (InterfaceTypeDefinition d) =
     (case fold_fields env cfg ancestors parent INTERFACE_TYPE_DEFINITION d of
        Inl e \<Rightarrow> Inl e
      | Inr node \<Rightarrow> Inr (JString (InterfaceTypeDefinition_leave env cfg node d)))"
| "fold_definition env cfg ancestors parent (UnionTypeDefinition d) =
     Inr (JString (UnionTypeDefinition_leave env cfg
            \<lparr>ftd_description = utd_description d, ftd_name = utd_name d, ftd_fields = []\<rparr> d))"
| "fold_definition env cfg ancestors parent (InputObjectTypeDefinition d) =
     (case fold_input_fields env cfg ancestors parent INPUT_OBJECT_TYPE_DEFINITION
             (iotd_name d) (iotd_fields d) of
        Inl e \<Rightarrow> Inl e
      | Inr fs \<Rightarrow>
          Inr (JString (InputObjectTypeDefinition_leave env cfg
                 \<lparr>ftd_description = iotd_description d, ftd_name = iotd_name d,
                  ftd_fields = fs\<rparr>)))"
| "fold_definition env cfg ancestors parent (ScalarTypeDefinition n) = Inr (JString [])"
| "fold_definition env cfg ancestors parent (EnumTypeDefinition n) = Inr JObject"
| "fold_definition env cfg ancestors parent (DirectiveDefinition d) =
     (case fold_input_fields env cfg ancestors parent DIRECTIVE_DEFINITION
             (dd_name d) (dd_arguments d) of
        Inl e \<Rightarrow> Inl e
      | Inr arguments \<Rightarrow> Inr (JString []))"
| "fold_definition env cfg ancestors parent SchemaDefinition = Inr (JString [])"

text \<open>\<^verbatim>\<open>visit(gqlDocumentNode, { ... }).definitions\<close>.\<close>

definition visit :: "env \<Rightarrow> config \<Rightarrow> definition_node list \<Rightarrow> error + js_value list" where
  "visit env cfg definitions =
     fold_list (fold_definition env cfg [AncestorNode DOCUMENT None]
             (AncestorArray (map definition_kind definitions)))
       definitions"

section \<open>The plugin\<close>

definition buildTypeImport :: "string \<Rightarrow> string \<Rightarrow> bool \<Rightarrow> bool \<Rightarrow> string" where
  "buildTypeImport identifier source asDefault typeImports =
     (if asDefault then
        (if typeImports then
           ''import type { default as '' @ identifier @ '' } from '' @ [CHR 0x27] @ source
           @ [CHR 0x27] @ '';''
         else ''import '' @ identifier @ '' from '' @ [CHR 0x27] @ source @ [CHR 0x27] @ '';'')
      else
        ''import'' @ (if typeImports then '' type'' else []) @ '' { '' @ identifier
        @ '' } from '' @ [CHR 0x27] @ source @ [CHR 0x27] @ '';'')"

definition getScalarsImports :: "(string \<times> parsed_mapper) list \<Rightarrow> bool \<Rightarrow> string list" where
  "getScalarsImports scalars typeImports =
     filter (\<lambda>s. s \<noteq> [])
       (map (\<lambda>(enumName, mappedValue).
               if pm_isExternal mappedValue then
                 buildTypeImport (pm_import mappedValue) (pm_source mappedValue)
                   (pm_default mappedValue) typeImports
               else [])
          scalars)"

definition EXACT_SIGNATURE :: string where
  "EXACT_SIGNATURE =
     ''type Exact<T extends { [key: string]: unknown }> = { [K in keyof T]: T[K] };''"

definition MAKE_OPTIONAL_SIGNATURE :: string where
  "MAKE_OPTIONAL_SIGNATURE =
     ''type MakeOptional<T, K extends keyof T> = Omit<T, K> & { [SubKey in K]?: Maybe<T[SubKey]> };''"

definition MAKE_MAYBE_SIGNATURE :: string where
  "MAKE_MAYBE_SIGNATURE =
     ''type MakeMaybe<T, K extends keyof T> = Omit<T, K> & { [SubKey in K]: Maybe<T[SubKey]> };''"

text \<open>\<^verbatim>\<open>value || fallback\<close> on an optional string.\<close>

definition orElse :: "string option \<Rightarrow> string \<Rightarrow> string" where
  "orElse v fallback = (if truthy v then the v else fallback)"

definition getWrapperDefinitions :: "config \<Rightarrow> string list" where
  "getWrapperDefinitions cfg =
     (if onlyEnums cfg then []
      else
        (let exportPrefix = (if noExport cfg then [] else ''export '');
             exactDefinition = exportPrefix @ EXACT_SIGNATURE;
             optionalDefinition = exportPrefix @ MAKE_OPTIONAL_SIGNATURE;
             maybeDefinition = exportPrefix @ MAKE_MAYBE_SIGNATURE;
             maybeValueDefinition =
               exportPrefix @ ''type Maybe<T> = '' @ orElse (maybeValue cfg) ''T | null'' @ '';'';
             inputMaybeValueDefinition =
               exportPrefix @ ''type InputMaybe<T> = '' @ orElse (inputMaybeValue cfg) ''Maybe<T>''
               @ '';''
         in [maybeValueDefinition, inputMaybeValueDefinition, exactDefinition, optionalDefinition,
             maybeDefinition]
            @ (if wrapFieldDefinitions cfg then
                 [exportPrefix @ ''type FieldWrapper<T> = ''
                  @ (case fieldWrapperValue cfg of None \<Rightarrow> ''undefined'' | Some v \<Rightarrow> v) @ '';'']
               else [])
            @ (if wrapEntireFieldDefinitions cfg then
                 [exportPrefix @ ''type EntireFieldWrapper<T> = ''
                  @ orElse (entireFieldWrapperValue cfg) ''T'' @ '';'']
               else [])))"

text \<open>
  The declaration of the directive mappings is printed only when there is a mapping.
\<close>

definition directivesDeclaration :: "env \<Rightarrow> config \<Rightarrow> string" where
  "directivesDeclaration env cfg =
     (case directiveArgumentAndInputFieldMappings cfg of
        None \<Rightarrow> []
      | Some m \<Rightarrow> if m = [] then [] else printedDirectives env)"

record plugin_output =
  prepend :: "string list"
  content :: string

text \<open>
  \<^verbatim>\<open>plugin(schema, documents, config)\<close> on the document of the transformed schema. The
  fold runs first; when it throws there is no output.
\<close>

definition plugin :: "env \<Rightarrow> config \<Rightarrow> definition_node list \<Rightarrow> error + plugin_output" where
  "plugin env cfg gqlDocumentNode =
     (case visit env cfg gqlDocumentNode of
        Inl e \<Rightarrow> Inl e
      | Inr definitions \<Rightarrow>
          Inr \<lparr>prepend =
                 filter (\<lambda>s. s \<noteq> [])
                   ([enumImportsDeclaration env, directiveImportsDeclaration env]
                    @ getScalarsImports (scalarsMap env)
                        (case useTypeImports cfg of None \<Rightarrow> False | Some b \<Rightarrow> b)
                    @ getWrapperDefinitions cfg),
               content =
                 join [CHR 0x0A]
                   (map js_toString
                      (filter js_truthy
                         ([JString (scalarsTypeDeclaration env @ [CHR 0x0A]),
                           JString (directivesDeclaration env cfg)]
                          @ definitions
                          @ map JString (introspectionDefinitions env))))\<rparr>)"

section \<open>A sample run\<close>

text \<open>
  Concrete collaborators, to evaluate the functions above on concrete schemas: a naming
  function that keeps the name between the prefix and the suffix it is given, a comment
  printer that gives no text for an absent comment, a block printer that writes the
  kind, the name, the content and the block, a schema with a oneOf input object
  \<^verbatim>\<open>Choice\<close> and the scalars \<^verbatim>\<open>Int\<close>, \<^verbatim>\<open>String\<close> and \<^verbatim>\<open>DateTime\<close>. They stand for the
  imported functions in the closed examples only; every general statement below holds
  for all collaborators.
\<close>

fun sample_convert :: "name_source \<Rightarrow> string option \<Rightarrow> string option \<Rightarrow> string" where
  "sample_convert (FromNode k n) p s =
     (case p of None \<Rightarrow> [] | Some x \<Rightarrow> x) @ n @ (case s of None \<Rightarrow> [] | Some x \<Rightarrow> x)"
| "sample_convert (FromString n) p s =
     (case p of None \<Rightarrow> [] | Some x \<Rightarrow> x) @ n @ (case s of None \<Rightarrow> [] | Some x \<Rightarrow> x)"

fun sample_transformComment :: "comment_text \<Rightarrow> nat \<Rightarrow> string" where
  "sample_transformComment NoComment n = []"
| "sample_transformComment (DescriptionNode d) n =
     (if d = [] then [] else indent (''/** '' @ d @ '' */'' @ [CHR 0x0A]) n)"
| "sample_transformComment (CommentString t) n =
     (if t = [] then [] else indent (''/** '' @ t @ '' */'' @ [CHR 0x0A]) n)"

definition sample_blockString :: "declaration_block \<Rightarrow> string" where
  "sample_blockString b =
     (if db_export b \<and> \<not> db_ignoreExport b then ''export '' else [])
     @ (case db_kind b of None \<Rightarrow> [] | Some k \<Rightarrow> k @ '' '')
     @ (case db_name b of None \<Rightarrow> [] | Some n \<Rightarrow> n @ '' = '')
     @ (case db_content b of None \<Rightarrow> [] | Some c \<Rightarrow> c)
     @ (case db_block b of None \<Rightarrow> [] | Some c \<Rightarrow> ''{'' @ [CHR 0x0A] @ c @ [CHR 0x0A] @ ''}'')
     @ '';''"

definition sample_getType :: "string \<Rightarrow> schema_type option" where
  "sample_getType n =
     (if n = ''Choice'' then Some (InputObjectType True [''a'', ''b''])
      else if n = ''Filter'' then Some (InputObjectType False [''a''])
      else if n = ''Color'' then Some EnumType
      else if n = ''Query'' \<or> n = ''Node'' \<or> n = ''Entity'' \<or> n = ''User'' then Some OtherType
      else None)"

definition sample_mapper :: "string \<Rightarrow> parsed_mapper" where
  "sample_mapper t =
     \<lparr>pm_type = t, pm_isExternal = False, pm_import = [], pm_source = [], pm_default = False\<rparr>"

definition sample_env :: env where
  "sample_env =
     \<lparr>convert = sample_convert,
      transformComment = sample_transformComment,
      blockString = sample_blockString,
      getType = sample_getType,
      scalarsMap = [(''Int'', sample_mapper ''number''), (''String'', sample_mapper ''string''),
                    (''DateTime'', sample_mapper ''Date'')],
      scalarsTypeDeclaration = ''export type Scalars = {};'',
      printedDirectives = [],
      enumImportsDeclaration = [],
      directiveImportsDeclaration = [],
      introspectionDefinitions = []\<rparr>"

definition sample_config :: config where
  "sample_config =
     \<lparr>avoidOptionals = AvoidOptionalsUndefined,
      directiveArgumentAndInputFieldMappings = None,
      immutableTypes = False, onlyOperationTypes = False, onlyEnums = False,
      futureProofUnions = False, noExport = False, nonOptionalTypename = False,
      skipTypename = False, addUnderscoreToArgsType = False, enumPrefix = None,
      typesPrefix = None, fieldWrapperValue = None, wrapFieldDefinitions = False,
      wrapEntireFieldDefinitions = False, entireFieldWrapperValue = None,
      maybeValue = None, inputMaybeValue = None, useTypeImports = None\<rparr>"

definition sample_input_value :: "string \<Rightarrow> type_node \<Rightarrow> input_value_definition" where
  "sample_input_value n t =
     \<lparr>ivd_description = None, ivd_name = n, ivd_type = t, ivd_defaultValue = None,
      ivd_directives = []\<rparr>"

text \<open>
  \<^verbatim>\<open>input Choice @oneOf { a: Int, b: String }\<close>, the same with \<^verbatim>\<open>a: Int!\<close>, and
  \<^verbatim>\<open>input Filter { a: Int }\<close>.
\<close>

definition sample_choice :: input_object_type_definition where
  "sample_choice =
     \<lparr>iotd_description = None, iotd_name = ''Choice'', iotd_directives = [],
      iotd_fields = [sample_input_value ''a'' (NamedType ''Int''),
                     sample_input_value ''b'' (NamedType ''String'')]\<rparr>"

definition sample_required_choice :: input_object_type_definition where
  "sample_required_choice =
     \<lparr>iotd_description = None, iotd_name = ''Choice'', iotd_directives = [],
      iotd_fields = [sample_input_value ''a'' (NonNullType (NamedType ''Int'')),
                     sample_input_value ''b'' (NamedType ''String'')]\<rparr>"

definition sample_filter :: input_object_type_definition where
  "sample_filter =
     \<lparr>iotd_description = None, iotd_name = ''Filter'', iotd_directives = [],
      iotd_fields = [sample_input_value ''a'' (NamedType ''Int'')]\<rparr>"

text \<open>\<^verbatim>\<open>type User implements Node & Entity\<close>, with no field of its own.\<close>

definition sample_user :: object_type_definition where
  "sample_user =
     \<lparr>otd_description = None, otd_name = ''User'', otd_interfaces = [''Node'', ''Entity''],
      otd_directives = [], otd_fields = []\<rparr>"

text \<open>\<^verbatim>\<open>type Query { user(id: Int): User  old: Int @deprecated }\<close>\<close>

definition sample_deprecated :: directive_node where
  "sample_deprecated = \<lparr>dir_name = NameNode ''deprecated'', dir_arguments = []\<rparr>"

definition sample_query :: object_type_definition where
  "sample_query =
     \<lparr>otd_description = None, otd_name = ''Query'', otd_interfaces = [], otd_directives = [],
      otd_fields =
        [\<lparr>fd_description = None, fd_name = ''user'',
          fd_arguments = [sample_input_value ''id'' (NamedType ''Int'')],
          fd_type = NamedType ''User'', fd_directives = []\<rparr>,
         \<lparr>fd_description = None, fd_name = ''old'', fd_arguments = [],
          fd_type = NamedType ''Int'', fd_directives = [sample_deprecated]\<rparr>]\<rparr>"

section \<open>Evaluation\<close>

text \<open>The defining equations, collected for evaluating the functions on concrete inputs.\<close>

lemmas sample_defs =
  sample_env_def sample_config_def sample_getType_def sample_input_value_def
  sample_blockString_def sample_mapper_def sample_choice_def sample_required_choice_def
  sample_filter_def sample_user_def sample_query_def sample_deprecated_def

lemmas block_defs =
  withBlock_def withContent_def withComment_def withName_def asKind_def export_def
  declarationBlockFor_def newDeclarationBlock_def

lemmas fold_defs =
  visit_def fold_fields_def fold_field_def fold_input_fields_def fold_input_value_def
  folded_children_def fold_directive_def InputValueDefinition_leave_def
  FieldDefinition_leave_def ObjectTypeDefinition_leave_def InterfaceTypeDefinition_leave_def
  InputObjectTypeDefinition_leave_def UnionTypeDefinition_leave_def NamedType_leave_def
  getNodeComment_def inputValueType_def buildFieldDefinition_def oneOfFieldParts_def
  clearOptional_def startsWith_def indent_def getTypeForNode_def MaybeString_def
  getKindsFromAncestors_def convertName_def getObjectTypeDeclarationBlock_def
  appendInterfacesAndFieldsToBlock_def mergeInterfaces_def typenameField_def
  buildArgumentsBlock_def argumentsDeclaration_def argumentsName_def scalarsEntry_def
  inheritedProperties_def directiveMapping_def unionMember_def

section \<open>Nullability wrappers\<close>

lemma startsWith_append [simp]: "startsWith (p @ s) p"
  by (simp add: startsWith_def)

lemma matchAt_wrapped:
  "\<not> list_ex lineTerminator s \<Longrightarrow> matchAt w (w @ ''<'' @ s @ ''>'') = Some s"
  by (simp add: matchAt_def startsWith_def butlast_append)

lemma replaceWrapper_wrapped:
  assumes "\<not> list_ex lineTerminator s" and "w \<noteq> []"
  shows "replaceWrapper w (w @ ''<'' @ s @ ''>'') = s"
proof -
  obtain c cs where w: "w = c # cs" using assms(2) by (cases w) auto
  have "matchAt w ((c # cs) @ ''<'' @ s @ ''>'') = Some s"
    using matchAt_wrapped[OF assms(1), of w] w by simp
  then show ?thesis using w by simp
qed

lemma NonNull_Maybe:
  "\<not> list_ex lineTerminator s \<Longrightarrow> NonNullType_leave (''Maybe<'' @ s @ ''>'') = s"
  using replaceWrapper_wrapped[of s "''Maybe''"]
  by (simp add: NonNullType_leave_def startsWith_def)

lemma NonNull_InputMaybe:
  "\<not> list_ex lineTerminator s \<Longrightarrow> NonNullType_leave (''InputMaybe<'' @ s @ ''>'') = s"
  using replaceWrapper_wrapped[of s "''InputMaybe''"]
  by (simp add: NonNullType_leave_def startsWith_def)

lemma MaybeString_cases:
  "MaybeString ancestors s = ''InputMaybe<'' @ s @ ''>''
   \<or> MaybeString ancestors s = ''Maybe<'' @ s @ ''>''"
  by (simp add: MaybeString_def Let_def)

lemma no_terminator_MaybeString:
  "\<not> list_ex lineTerminator s \<Longrightarrow> \<not> list_ex lineTerminator (MaybeString ancestors s)"
  by (simp add: MaybeString_def Let_def lineTerminator_def)

text \<open>
  The input context of \<open>MaybeString\<close>: some node among the ancestors is an input object
  type definition. An array among the ancestors never counts, whatever it holds.
\<close>

lemma input_context_iff:
  "(Inl INPUT_OBJECT_TYPE_DEFINITION \<in> set (getKindsFromAncestors ancestors))
     = (\<exists>n. AncestorNode INPUT_OBJECT_TYPE_DEFINITION n \<in> set ancestors)"
  by (induction ancestors) (auto simp: getKindsFromAncestors_def split: ancestor.splits)

text \<open>
  C6: wrapping a rendered type in the wrapper of the context (input or output, as the
  ancestors decide) and then applying the non-null rule gives back the rendering
  unchanged. A rendered type is a single line of text: names, angle brackets and square
  brackets. The second and third conjunct are two levels of nesting: the non-null list of
  a nullable type, and the non-null list of a non-null type.
\<close>

theorem unwrap_rewrap:
  assumes "\<not> list_ex lineTerminator rendered"
  shows "NonNullType_leave (MaybeString ancestors rendered) = rendered
       \<and> NonNullType_leave (ListType_leave ancestors (MaybeString ancestors rendered))
           = ''Array<'' @ MaybeString ancestors rendered @ ''>''
       \<and> NonNullType_leave
           (ListType_leave ancestors (NonNullType_leave (MaybeString ancestors rendered)))
           = ''Array<'' @ rendered @ ''>''"
proof -
  have one: "NonNullType_leave (MaybeString a s) = s" if "\<not> list_ex lineTerminator s" for a s
    using MaybeString_cases[of a s] NonNull_Maybe[OF that] NonNull_InputMaybe[OF that] by auto
  have two: "\<not> list_ex lineTerminator (''Array<'' @ s @ ''>'')"
    if "\<not> list_ex lineTerminator s" for s
    using that by (simp add: lineTerminator_def)
  show ?thesis
    using one[OF assms] one[OF two[OF no_terminator_MaybeString[OF assms]]] one[OF two[OF assms]]
    by (simp add: ListType_leave_def)
qed

theorem unwrap_rewrap_witness:
  "NonNullType_leave
     (MaybeString [AncestorNode INPUT_OBJECT_TYPE_DEFINITION (Some ''Choice'')]
        ''Array<InputMaybe<Int>>'')
     = ''Array<InputMaybe<Int>>''
   \<and> NonNullType_leave (MaybeString [AncestorNode OBJECT_TYPE_DEFINITION (Some ''Query'')] ''Int'')
     = ''Int''"
  using unwrap_rewrap[of "''Array<InputMaybe<Int>>''"
      "[AncestorNode INPUT_OBJECT_TYPE_DEFINITION (Some ''Choice'')]"]
    unwrap_rewrap[of "''Int''" "[AncestorNode OBJECT_TYPE_DEFINITION (Some ''Query'')]"]
  by (simp add: lineTerminator_def)

text \<open>
  C7: a list type is rendered as the wrapper of the context around \<^verbatim>\<open>Array<T>\<close>:
  \<^verbatim>\<open>InputMaybe<Array<T>>\<close> when an ancestor is an input object type definition,
  \<^verbatim>\<open>Maybe<Array<T>>\<close> otherwise, whatever the rendering \<^verbatim>\<open>T\<close> of the element type is; first
  for the handler, then for the fold of a list type node.
\<close>

theorem list_type_wrapper:
  "ListType_leave ancestors rendered =
     (if (\<exists>n. AncestorNode INPUT_OBJECT_TYPE_DEFINITION n \<in> set ancestors)
      then ''InputMaybe<Array<'' @ rendered @ ''>>''
      else ''Maybe<Array<'' @ rendered @ ''>>'')
   \<and> fold_type env cfg ancestors parent (ListType t) =
     (if (\<exists>n. AncestorNode INPUT_OBJECT_TYPE_DEFINITION n \<in> set ancestors)
      then ''InputMaybe<Array<''
           @ fold_type env cfg (ancestors @ [parent]) (AncestorNode LIST_TYPE None) t @ ''>>''
      else ''Maybe<Array<''
           @ fold_type env cfg (ancestors @ [parent]) (AncestorNode LIST_TYPE None) t @ ''>>'')"
  by (simp add: ListType_leave_def MaybeString_def input_context_iff)

theorem list_type_wrapper_witness:
  "ListType_leave
     [AncestorNode DOCUMENT None, AncestorArray [INPUT_OBJECT_TYPE_DEFINITION],
      AncestorNode INPUT_OBJECT_TYPE_DEFINITION (Some ''Choice''),
      AncestorArray [INPUT_VALUE_DEFINITION]] ''Int'' = ''InputMaybe<Array<Int>>''
   \<and> ListType_leave
     [AncestorNode DOCUMENT None,
      AncestorArray [INPUT_OBJECT_TYPE_DEFINITION, OBJECT_TYPE_DEFINITION],
      AncestorNode OBJECT_TYPE_DEFINITION (Some ''Query''),
      AncestorArray [FIELD_DEFINITION]] ''Maybe<Int>'' = ''Maybe<Array<Maybe<Int>>>''"
  using list_type_wrapper[of
      "[AncestorNode DOCUMENT None, AncestorArray [INPUT_OBJECT_TYPE_DEFINITION],
        AncestorNode INPUT_OBJECT_TYPE_DEFINITION (Some ''Choice''),
        AncestorArray [INPUT_VALUE_DEFINITION]]" "''Int''"]
    list_type_wrapper[of
      "[AncestorNode DOCUMENT None,
        AncestorArray [INPUT_OBJECT_TYPE_DEFINITION, OBJECT_TYPE_DEFINITION],
        AncestorNode OBJECT_TYPE_DEFINITION (Some ''Query''),
        AncestorArray [FIELD_DEFINITION]]" "''Maybe<Int>''"]
  by simp

section \<open>Scalars\<close>

text \<open>
  C5: a named type whose name is a key of the scalar map is resolved to a reference into
  the \<^verbatim>\<open>Scalars\<close> type, \<^verbatim>\<open>Scalars['Name']\<close>: by the resolver \<^verbatim>\<open>getTypeForNode\<close>, for a member
  of a union, and at every named type node of the fold (there inside the wrappers of the
  position).
\<close>

theorem scalar_reference:
  assumes "map_of (scalarsMap env) typename = Some mapper"
  shows "getTypeForNode env typename cfg
           = ''Scalars['' @ [CHR 0x27] @ typename @ [CHR 0x27] @ '']''
    \<and> unionMember env typename = ''Scalars['' @ [CHR 0x27] @ typename @ [CHR 0x27] @ '']''
    \<and> fold_type env cfg ancestors parent (NamedType typename) =
        MaybeString ancestors
          (if \<not> (\<exists>n. AncestorNode INPUT_OBJECT_TYPE_DEFINITION n \<in> set ancestors)
              \<and> truthy (fieldWrapperValue cfg) \<and> wrapFieldDefinitions cfg
           then ''FieldWrapper<Scalars['' @ [CHR 0x27] @ typename @ [CHR 0x27] @ '']>''
           else ''Scalars['' @ [CHR 0x27] @ typename @ [CHR 0x27] @ '']'')"
  using assms
  by (simp add: getTypeForNode_def unionMember_def scalarsEntry_def NamedType_leave_def
      input_context_iff Let_def)

theorem scalar_reference_witness:
  "getTypeForNode sample_env ''DateTime'' sample_config
     = ''Scalars['' @ [CHR 0x27] @ ''DateTime'' @ [CHR 0x27] @ '']''
   \<and> unionMember sample_env ''DateTime''
     = ''Scalars['' @ [CHR 0x27] @ ''DateTime'' @ [CHR 0x27] @ '']''
   \<and> fold_type sample_env sample_config [AncestorNode DOCUMENT None] (AncestorArray [])
       (NamedType ''DateTime'')
     = ''Maybe<Scalars['' @ [CHR 0x27] @ ''DateTime'' @ [CHR 0x27] @ '']>''"
  using scalar_reference[of sample_env "''DateTime''" "sample_mapper ''Date''" sample_config
      "[AncestorNode DOCUMENT None]" "AncestorArray []"]
  by (simp add: sample_env_def sample_config_def MaybeString_def getKindsFromAncestors_def)

section \<open>The selected field of a oneOf variant\<close>

lemma clearOptional_other: "\<not> startsWith s ''Maybe'' \<Longrightarrow> clearOptional s = s"
  by (simp add: clearOptional_def)

text \<open>
  C10: in the arm of a oneOf variant for the selected field (\<^verbatim>\<open>buildFieldDefinition(true)\<close>)
  the field is written without the optional sign, and its type goes through
  \<open>clearOptional\<close>. That helper leaves every text unchanged that does not start with
  \<^verbatim>\<open>Maybe\<close>, so a type rendered in input context, which starts with \<^verbatim>\<open>InputMaybe<\<close>, stays
  wrapped; what it unwraps is \<^verbatim>\<open>Maybe<T>\<close>; and a wrapped rendering that it changes starts
  with \<^verbatim>\<open>Maybe<\<close>.
\<close>

theorem oneOf_keeps_InputMaybe:
  "buildFieldDefinition readonlyPrefix name addOptionalSign fieldType True
     = readonlyPrefix @ name @ '': '' @ clearOptional fieldType @ '';''
   \<and> clearOptional (''InputMaybe<'' @ t) = ''InputMaybe<'' @ t
   \<and> (\<not> startsWith s ''Maybe'' \<longrightarrow> clearOptional s = s)
   \<and> (\<not> list_ex lineTerminator t \<longrightarrow> clearOptional (''Maybe<'' @ t @ ''>'') = t)
   \<and> ((\<exists>n. AncestorNode INPUT_OBJECT_TYPE_DEFINITION n \<in> set ancestors)
        \<longrightarrow> clearOptional (MaybeString ancestors t) = ''InputMaybe<'' @ t @ ''>'')
   \<and> (clearOptional (MaybeString ancestors t) \<noteq> MaybeString ancestors t
        \<longrightarrow> startsWith (MaybeString ancestors t) ''Maybe<'')"
proof -
  have a: "clearOptional (''InputMaybe<'' @ u) = ''InputMaybe<'' @ u" for u
    by (simp add: clearOptional_def startsWith_def)
  have b: "\<not> list_ex lineTerminator t \<longrightarrow> clearOptional (''Maybe<'' @ t @ ''>'') = t"
    using replaceWrapper_wrapped[of t "''Maybe''"] by (simp add: clearOptional_def startsWith_def)
  have c: "(\<exists>n. AncestorNode INPUT_OBJECT_TYPE_DEFINITION n \<in> set ancestors)
        \<longrightarrow> clearOptional (MaybeString ancestors t) = ''InputMaybe<'' @ t @ ''>''"
    using a[of "t @ ''>''"] by (simp add: MaybeString_def input_context_iff)
  have d: "clearOptional (MaybeString ancestors t) \<noteq> MaybeString ancestors t
        \<longrightarrow> startsWith (MaybeString ancestors t) ''Maybe<''"
    using a[of "t @ ''>''"] by (simp add: MaybeString_def startsWith_def)
  show ?thesis
    using a b c d by (simp add: buildFieldDefinition_def clearOptional_other)
qed

theorem oneOf_keeps_InputMaybe_witness:
  "buildFieldDefinition [] ''a'' True ''InputMaybe<Int>'' True = ''a: InputMaybe<Int>;''
   \<and> clearOptional ''InputMaybe<Int>'' = ''InputMaybe<Int>''
   \<and> clearOptional ''Array<Int>'' = ''Array<Int>''
   \<and> clearOptional ''Maybe<Int>'' = ''Int''
   \<and> clearOptional (MaybeString [AncestorNode INPUT_OBJECT_TYPE_DEFINITION (Some ''Choice'')] ''Int'')
       = ''InputMaybe<Int>''
   \<and> startsWith (MaybeString [AncestorNode OBJECT_TYPE_DEFINITION (Some ''Query'')] ''Int'') ''Maybe<''"
  using oneOf_keeps_InputMaybe[where readonlyPrefix = "[]" and name = "''a''"
      and addOptionalSign = True and fieldType = "''InputMaybe<Int>''" and t = "''Int''"
      and s = "''Array<Int>''"
      and ancestors = "[AncestorNode INPUT_OBJECT_TYPE_DEFINITION (Some ''Choice'')]"]
    oneOf_keeps_InputMaybe[where t = "''Int>''" and s = "''Array<Int>''"
      and ancestors = "[AncestorNode OBJECT_TYPE_DEFINITION (Some ''Query'')]"]
    oneOf_keeps_InputMaybe[where t = "''Int''" and s = "''Array<Int>''"
      and ancestors = "[AncestorNode OBJECT_TYPE_DEFINITION (Some ''Query'')]"]
  by (simp add: lineTerminator_def startsWith_def MaybeString_def getKindsFromAncestors_def)

section \<open>Errors of the fold\<close>

text \<open>
  A list of children is folded up to the first error: an error of the list is the error
  of one of its elements, an element that fails makes the list fail, and when every
  element returns, the results come in the order of the elements.
\<close>

lemma fold_list_error:
  "fold_list f xs = Inl e \<Longrightarrow> \<exists>x \<in> set xs. f x = Inl e"
  by (induction xs arbitrary: e) (auto split: sum.splits)

lemma fold_list_raises:
  "x \<in> set xs \<Longrightarrow> f x = Inl e \<Longrightarrow> \<exists>e'. fold_list f xs = Inl e'"
  by (induction xs) (auto split: sum.splits)


lemma InputValueDefinition_leave_error:
  assumes "InputValueDefinition_leave env cfg (ancestors @ [AncestorNode k (Some n)]) originalFieldNode node = Inl e"
  shows "e = Error nonNullableMessage"
  using assms
  by (simp add: InputValueDefinition_leave_def Let_def split: if_splits)

lemma InputValueDefinition_leave_raises:
  assumes "isOneOfInputObjectType (getType env n)"
    and "type_kind (ivd_type originalFieldNode) = NON_NULL_TYPE"
  shows "InputValueDefinition_leave env cfg (ancestors @ [AncestorNode k (Some n)]) originalFieldNode node
           = Inl (Error nonNullableMessage)"
  using assms
  by (simp add: InputValueDefinition_leave_def Let_def)

lemma InputValueDefinition_leave_returns:
  assumes "type_kind (ivd_type originalFieldNode) \<noteq> NON_NULL_TYPE"
  shows "\<exists>s. InputValueDefinition_leave env cfg (ancestors @ [AncestorNode k (Some n)]) originalFieldNode node
           = Inr s"
  using assms
  by (simp add: InputValueDefinition_leave_def Let_def)

lemma fold_input_value_error:
  assumes "fold_input_value env cfg (ancestors @ [AncestorNode k (Some n)]) parent x = Inl e"
  shows "e = Error nonNullableMessage"
  using assms unfolding fold_input_value_def
  by (rule InputValueDefinition_leave_error)

lemma fold_input_value_raises:
  assumes "isOneOfInputObjectType (getType env n)"
    and "type_kind (ivd_type x) = NON_NULL_TYPE"
  shows "fold_input_value env cfg (ancestors @ [AncestorNode k (Some n)]) parent x
           = Inl (Error nonNullableMessage)"
  unfolding fold_input_value_def
  using assms by (rule InputValueDefinition_leave_raises)

lemma fold_input_value_returns:
  assumes "type_kind (ivd_type x) \<noteq> NON_NULL_TYPE"
  shows "\<exists>s. fold_input_value env cfg (ancestors @ [AncestorNode k (Some n)]) parent x = Inr s"
  unfolding fold_input_value_def
  using assms by (rule InputValueDefinition_leave_returns)

lemma fold_field_error:
  assumes "fold_field env cfg ancestors parent originalNode = Inl e"
  shows "e = Error nonNullableMessage"
proof -
  let ?self = "AncestorNode FIELD_DEFINITION (Some (fd_name originalNode))"
  let ?f = "fold_input_value env cfg ((ancestors @ [parent]) @ [?self])
              (AncestorArray (map (\<lambda>a. INPUT_VALUE_DEFINITION) (fd_arguments originalNode)))"
  have "fold_list ?f (fd_arguments originalNode) = Inl e"
    using assms by (simp add: fold_field_def Let_def split: sum.splits)
  from fold_list_error[OF this] obtain x where "?f x = Inl e" ..
  then show ?thesis by (rule fold_input_value_error)
qed

lemma fold_fields_error:
  assumes "fold_fields env cfg ancestors parent k d = Inl e"
  shows "e = Error nonNullableMessage"
proof -
  let ?f = "fold_field env cfg (ancestors @ [parent, AncestorNode k (Some (otd_name d))])
                   (AncestorArray (map (\<lambda>f. FIELD_DEFINITION) (otd_fields d)))"
  have "fold_list ?f (otd_fields d) = Inl e"
    using assms by (simp add: fold_fields_def split: sum.splits)
  from fold_list_error[OF this] obtain x where "?f x = Inl e" ..
  then show ?thesis by (rule fold_field_error)
qed

lemma fold_input_fields_error:
  assumes "fold_input_fields env cfg ancestors parent k name inputValues = Inl e"
  shows "e = Error nonNullableMessage"
proof -
  let ?f = "fold_input_value env cfg ((ancestors @ [parent]) @ [AncestorNode k (Some name)])
             (AncestorArray (map (\<lambda>f. INPUT_VALUE_DEFINITION) inputValues))"
  have "fold_list ?f inputValues = Inl e"
    using assms by (simp add: fold_input_fields_def)
  from fold_list_error[OF this] obtain x where "?f x = Inl e" ..
  then show ?thesis by (rule fold_input_value_error)
qed

lemma fold_definition_error:
  assumes "fold_definition env cfg ancestors parent d = Inl e"
  shows "e = Error nonNullableMessage"
proof (cases d)
  case (ObjectTypeDefinition x)
  then have "fold_fields env cfg ancestors parent OBJECT_TYPE_DEFINITION x = Inl e"
    using assms by (simp split: sum.splits)
  then show ?thesis by (rule fold_fields_error)
next
  case (InterfaceTypeDefinition x)
  then have "fold_fields env cfg ancestors parent INTERFACE_TYPE_DEFINITION x = Inl e"
    using assms by (simp split: sum.splits)
  then show ?thesis by (rule fold_fields_error)
next
  case (InputObjectTypeDefinition x)
  then have "fold_input_fields env cfg ancestors parent INPUT_OBJECT_TYPE_DEFINITION
               (iotd_name x) (iotd_fields x) = Inl e"
    using assms by (simp split: sum.splits)
  then show ?thesis by (rule fold_input_fields_error)
next
  case (DirectiveDefinition x)
  then have "fold_input_fields env cfg ancestors parent DIRECTIVE_DEFINITION
               (dd_name x) (dd_arguments x) = Inl e"
    using assms by (simp split: sum.splits)
  then show ?thesis by (rule fold_input_fields_error)
qed (use assms in simp_all)

lemma visit_error:
  assumes "visit env cfg definitions = Inl e"
  shows "e = Error nonNullableMessage"
proof -
  let ?f = "fold_definition env cfg [AncestorNode DOCUMENT None]
             (AncestorArray (map definition_kind definitions))"
  have "fold_list ?f definitions = Inl e"
    using assms by (simp add: visit_def)
  from fold_list_error[OF this] obtain x where "?f x = Inl e" ..
  then show ?thesis by (rule fold_definition_error)
qed

lemma fold_input_fields_raises:
  assumes "isOneOfInputObjectType (getType env name)"
    and "f \<in> set inputValues" and "type_kind (ivd_type f) = NON_NULL_TYPE"
  shows "fold_input_fields env cfg ancestors parent k name inputValues = Inl (Error nonNullableMessage)"
proof -
  let ?g = "fold_input_value env cfg ((ancestors @ [parent]) @ [AncestorNode k (Some name)])
             (AncestorArray (map (\<lambda>f. INPUT_VALUE_DEFINITION) inputValues))"
  have "?g f = Inl (Error nonNullableMessage)"
    using assms(1,3) by (rule fold_input_value_raises)
  from fold_list_raises[of f inputValues ?g, OF assms(2) this]
  obtain e where e: "fold_input_fields env cfg ancestors parent k name inputValues = Inl e"
    by (auto simp: fold_input_fields_def)
  then show ?thesis
    using fold_input_fields_error[OF e] by simp
qed

lemma fold_input_fields_returns:
  assumes "\<forall>f \<in> set inputValues. type_kind (ivd_type f) \<noteq> NON_NULL_TYPE"
  shows "\<exists>fs. fold_input_fields env cfg ancestors parent k name inputValues = Inr fs"
proof (cases "fold_input_fields env cfg ancestors parent k name inputValues")
  case (Inl e)
  let ?g = "fold_input_value env cfg ((ancestors @ [parent]) @ [AncestorNode k (Some name)])
             (AncestorArray (map (\<lambda>f. INPUT_VALUE_DEFINITION) inputValues))"
  have "fold_list ?g inputValues = Inl e"
    using Inl by (simp add: fold_input_fields_def)
  from fold_list_error[OF this] obtain x where x: "x \<in> set inputValues" "?g x = Inl e" ..
  have "type_kind (ivd_type x) \<noteq> NON_NULL_TYPE"
    using assms x(1) by blast
  from fold_input_value_returns[OF this] obtain s where "?g x = Inr s" ..
  then show ?thesis using x(2) by simp
next
  case (Inr fs)
  then show ?thesis by blast
qed

text \<open>
  C1: when the document holds an input object type that the schema flags as oneOf and one
  of its fields has a non-null type, the fold throws the error with the message of
  \<open>nonNullableMessage\<close>, and so does the plugin: it returns no output. When no field of
  an input object type is non-null, the fold of that definition returns a fragment.
\<close>

theorem oneOf_non_null_field_raises:
  "(InputObjectTypeDefinition d \<in> set gqlDocumentNode
      \<and> isOneOfInputObjectType (getType env (iotd_name d))
      \<and> (\<exists>f \<in> set (iotd_fields d). type_kind (ivd_type f) = NON_NULL_TYPE)
    \<longrightarrow> visit env cfg gqlDocumentNode = Inl (Error nonNullableMessage)
        \<and> plugin env cfg gqlDocumentNode = Inl (Error nonNullableMessage))
   \<and> ((\<forall>f \<in> set (iotd_fields d). type_kind (ivd_type f) \<noteq> NON_NULL_TYPE)
    \<longrightarrow> (\<exists>fragment. fold_definition env cfg ancestors parent (InputObjectTypeDefinition d)
                      = Inr (JString fragment)))"
proof (intro conjI impI)
  assume a: "InputObjectTypeDefinition d \<in> set gqlDocumentNode
      \<and> isOneOfInputObjectType (getType env (iotd_name d))
      \<and> (\<exists>f \<in> set (iotd_fields d). type_kind (ivd_type f) = NON_NULL_TYPE)"
  then obtain f where f: "f \<in> set (iotd_fields d)" "type_kind (ivd_type f) = NON_NULL_TYPE"
    by blast
  let ?fold = "fold_definition env cfg [AncestorNode DOCUMENT None]
                 (AncestorArray (map definition_kind gqlDocumentNode))"
  have "?fold (InputObjectTypeDefinition d) = Inl (Error nonNullableMessage)"
    using a fold_input_fields_raises[OF _ f, of env "iotd_name d"] by simp
  moreover have "InputObjectTypeDefinition d \<in> set gqlDocumentNode"
    using a by simp
  ultimately obtain e where "visit env cfg gqlDocumentNode = Inl e"
    using fold_list_raises[of "InputObjectTypeDefinition d" gqlDocumentNode ?fold]
    by (auto simp: visit_def)
  then show v: "visit env cfg gqlDocumentNode = Inl (Error nonNullableMessage)"
    using visit_error by blast
  then show "plugin env cfg gqlDocumentNode = Inl (Error nonNullableMessage)"
    by (simp add: plugin_def)
next
  assume "\<forall>f \<in> set (iotd_fields d). type_kind (ivd_type f) \<noteq> NON_NULL_TYPE"
  then show "\<exists>fragment. fold_definition env cfg ancestors parent (InputObjectTypeDefinition d)
                      = Inr (JString fragment)"
    using fold_input_fields_returns[of "iotd_fields d" env cfg ancestors parent
        INPUT_OBJECT_TYPE_DEFINITION "iotd_name d"]
    by auto
qed

theorem oneOf_non_null_field_raises_witness:
  "plugin sample_env sample_config [InputObjectTypeDefinition sample_required_choice]
     = Inl (Error nonNullableMessage)
   \<and> (\<exists>fragment. fold_definition sample_env sample_config [AncestorNode DOCUMENT None]
          (AncestorArray [INPUT_OBJECT_TYPE_DEFINITION]) (InputObjectTypeDefinition sample_choice)
        = Inr (JString fragment))"
  using oneOf_non_null_field_raises[of sample_required_choice
      "[InputObjectTypeDefinition sample_required_choice]" sample_env sample_config]
    oneOf_non_null_field_raises[of sample_choice "[]" sample_env sample_config
      "[AncestorNode DOCUMENT None]" "AncestorArray [INPUT_OBJECT_TYPE_DEFINITION]"]
  by (simp add: sample_required_choice_def sample_choice_def sample_env_def sample_getType_def
      sample_input_value_def)

section \<open>Suppressed kinds\<close>

text \<open>
  C9: with \<^verbatim>\<open>onlyOperationTypes\<close> set and \<^verbatim>\<open>onlyEnums\<close> not set, the handlers of object,
  interface and union type definitions return the empty string, and so does the fold of
  such a definition whenever it returns; the handler of an input object type definition
  still prints its declaration block (a union of arms for a oneOf type, a block of
  fields otherwise).
\<close>

theorem only_operation_types:
  assumes "onlyOperationTypes cfg" and "\<not> onlyEnums cfg"
  shows "ObjectTypeDefinition_leave env cfg node originalNode = []
     \<and> InterfaceTypeDefinition_leave env cfg node originalNode = []
     \<and> UnionTypeDefinition_leave env cfg node unionNode = []
     \<and> InputObjectTypeDefinition_leave env cfg node =
         blockString env
           ((if isOneOfInputObjectType (getType env (ftd_name node))
             then withContent ([CHR 0x0A] @ join ([CHR 0x0A] @ ''  |'') (ftd_fields node))
             else withBlock (join [CHR 0x0A] (ftd_fields node)))
              (withComment (comment_of_description (ftd_description node))
                (withName
                   (convertName env (FromNode INPUT_OBJECT_TYPE_DEFINITION (ftd_name node)) None)
                  (asKind ''type'' (export (declarationBlockFor cfg))))))
     \<and> (fold_definition env cfg ancestors parent (ObjectTypeDefinition d) = Inr v
          \<longrightarrow> v = JString [])
     \<and> (fold_definition env cfg ancestors parent (InterfaceTypeDefinition d) = Inr v
          \<longrightarrow> v = JString [])
     \<and> fold_definition env cfg ancestors parent (UnionTypeDefinition u) = Inr (JString [])"
  using assms
  by (auto simp: ObjectTypeDefinition_leave_def InterfaceTypeDefinition_leave_def
      UnionTypeDefinition_leave_def InputObjectTypeDefinition_leave_def split: sum.splits)

theorem only_operation_types_witness:
  "ObjectTypeDefinition_leave sample_env (sample_config\<lparr>onlyOperationTypes := True\<rparr>)
     \<lparr>ftd_description = None, ftd_name = ''Query'', ftd_fields = [''  old?: Maybe<Int>;'']\<rparr>
     sample_query = []
   \<and> InputObjectTypeDefinition_leave sample_env (sample_config\<lparr>onlyOperationTypes := True\<rparr>)
     \<lparr>ftd_description = None, ftd_name = ''Filter'', ftd_fields = [''  a?: InputMaybe<Int>;'']\<rparr>
     = ''export type Filter = {'' @ [CHR 0x0A] @ ''  a?: InputMaybe<Int>;'' @ [CHR 0x0A] @ ''};''
   \<and> map_sum id content
       (plugin sample_env (sample_config\<lparr>onlyOperationTypes := True\<rparr>)
          [ObjectTypeDefinition sample_query, InputObjectTypeDefinition sample_filter])
     = Inr (''export type Scalars = {};'' @ [CHR 0x0A, CHR 0x0A]
            @ ''export type Filter = {'' @ [CHR 0x0A] @ ''  a?: InputMaybe<Scalars[''
            @ [CHR 0x27] @ ''Int'' @ [CHR 0x27] @ '']>;'' @ [CHR 0x0A] @ ''};'')"
  using only_operation_types[of "sample_config\<lparr>onlyOperationTypes := True\<rparr>" sample_env
      "\<lparr>ftd_description = None, ftd_name = ''Query'', ftd_fields = [''  old?: Maybe<Int>;'']\<rparr>"
      sample_query]
    only_operation_types[of "sample_config\<lparr>onlyOperationTypes := True\<rparr>" sample_env
      "\<lparr>ftd_description = None, ftd_name = ''Filter'', ftd_fields = [''  a?: InputMaybe<Int>;'']\<rparr>"]
  by (simp add: sample_defs block_defs fold_defs plugin_def directivesDeclaration_def)

section \<open>Interfaces of an object type\<close>

text \<open>
  C8, as amended: the content of the declaration block of an object type is the
  converted names of its interfaces joined by \<^verbatim>\<open> & \<close>, followed by one more \<^verbatim>\<open> & \<close>
  exactly when there are interfaces and the field list is not empty, where the field
  list is the discriminant line (unless \<^verbatim>\<open>skipTypename\<close> is set) followed by the fields of
  the type; the block is that field list, one field per line. So an object type with two
  interfaces and no field of its own has \<^verbatim>\<open>A & B & \<close> before the discriminant block,
  and \<^verbatim>\<open>A & B\<close> with no combinator after it only when the discriminant is skipped too.
\<close>

theorem interfaces_and_fields:
  "db_content (getObjectTypeDeclarationBlock env node originalNode cfg) =
     Some (join '' & ''
             (map (\<lambda>i. convertName env (FromNode NAMED_TYPE i) None) (otd_interfaces originalNode))
           @ (if otd_interfaces originalNode \<noteq> [] \<and> (\<not> skipTypename cfg \<or> ftd_fields node \<noteq> [])
              then '' & '' else []))
   \<and> db_block (getObjectTypeDeclarationBlock env node originalNode cfg) =
     Some (join [CHR 0x0A]
             ((if skipTypename cfg then [] else [typenameField cfg (ftd_name node)])
              @ ftd_fields node))"
  by (simp add: getObjectTypeDeclarationBlock_def appendInterfacesAndFieldsToBlock_def
      mergeInterfaces_def block_defs Let_def)

theorem interfaces_and_fields_witness:
  "db_content (getObjectTypeDeclarationBlock sample_env
       \<lparr>ftd_description = None, ftd_name = ''User'', ftd_fields = []\<rparr> sample_user
       (sample_config\<lparr>skipTypename := True\<rparr>)) = Some ''Node & Entity''
   \<and> db_block (getObjectTypeDeclarationBlock sample_env
       \<lparr>ftd_description = None, ftd_name = ''User'', ftd_fields = []\<rparr> sample_user
       (sample_config\<lparr>skipTypename := True\<rparr>)) = Some []"
  using interfaces_and_fields[of sample_env
      "\<lparr>ftd_description = None, ftd_name = ''User'', ftd_fields = []\<rparr>" sample_user
      "sample_config\<lparr>skipTypename := True\<rparr>"]
  by (simp add: sample_defs convertName_def)

text \<open>
  The claim as first stated fails for \<^verbatim>\<open>type User implements Node & Entity\<close> with the
  discriminant enabled: the interface list is followed by a combinator, and the
  discriminant block comes after it.
\<close>

theorem discriminant_only_counterexample:
  "db_content (getObjectTypeDeclarationBlock sample_env
       \<lparr>ftd_description = None, ftd_name = ''User'', ftd_fields = []\<rparr> sample_user sample_config)
     = Some ''Node & Entity & ''
   \<and> db_block (getObjectTypeDeclarationBlock sample_env
       \<lparr>ftd_description = None, ftd_name = ''User'', ftd_fields = []\<rparr> sample_user sample_config)
     = Some (''  __typename?: '' @ [CHR 0x27] @ ''User'' @ [CHR 0x27] @ '';'')
   \<and> fold_definition sample_env sample_config [AncestorNode DOCUMENT None]
       (AncestorArray [OBJECT_TYPE_DEFINITION]) (ObjectTypeDefinition sample_user)
     = Inr (JString (''export type User = Node & Entity & {'' @ [CHR 0x0A]
          @ ''  __typename?: '' @ [CHR 0x27] @ ''User'' @ [CHR 0x27] @ '';'' @ [CHR 0x0A] @ ''};''))"
  by (simp add: sample_defs block_defs fold_defs)

section \<open>The variants of a oneOf input object\<close>




section \<open>Deprecation comments\<close>

lemma folded_directive_name: "name_value (dir_name (fold_directive d)) = None"
  by (cases "dir_name d") (simp_all add: fold_directive_def)

lemma find_folded_directive:
  "find (\<lambda>v. name_value (dir_name v) = Some n) (map fold_directive ds) = None"
  by (induction ds) (simp_all add: folded_directive_name)

lemma named_node_has_no_reason:
  assumes "name_value (dir_name d) = Some n"
  shows "getDeprecationReason d = None"
  using assms by (cases "dir_name d") (simp_all add: getDeprecationReason_def)

text \<open>
  C2 does not hold of the code. The comment of a node that the fold has left is the
  comment of its description alone, whatever directives it carries: the directive is
  looked for by \<^verbatim>\<open>v.name.value\<close>, and the name of a folded directive is a string. Whatever
  form the names have, the text handed to \<^verbatim>\<open>transformComment\<close> is the description, or
  ends with \<^verbatim>\<open>@deprecated undefined\<close>, since \<open>getDeprecationReason\<close> compares the name as a
  string; and for a directive with an argument that function gives the kind of the
  argument's value, not its text. The last conjunct is the field \<^verbatim>\<open>old: Int @deprecated\<close>.
\<close>

theorem deprecation_never_rendered:
  "getNodeComment env description (map fold_directive directives)
     = transformComment env (comment_of_description description) 1
   \<and> (getNodeComment env description directives
         = transformComment env (comment_of_description description) 1
      \<or> getNodeComment env description directives
         = transformComment env
             (CommentString ((if description = None then [] else ''[object Object]'' @ [CHR 0x0A])
                             @ ''@deprecated undefined'')) 1)
   \<and> getDeprecationReason
        \<lparr>dir_name = NameString ''deprecated'',
         dir_arguments = [\<lparr>arg_name = n, arg_value = \<lparr>value_kind = k, value_text = reason\<rparr>\<rparr>]\<rparr>
       = Some k
   \<and> fold_field sample_env sample_config
        [AncestorNode DOCUMENT None, AncestorArray [OBJECT_TYPE_DEFINITION],
         AncestorNode OBJECT_TYPE_DEFINITION (Some ''Query'')]
        (AncestorArray [FIELD_DEFINITION])
        \<lparr>fd_description = None, fd_name = ''old'', fd_arguments = [],
         fd_type = NamedType ''Int'', fd_directives = [sample_deprecated]\<rparr>
       = Inr (''  old?: Maybe<Scalars['' @ [CHR 0x27] @ ''Int'' @ [CHR 0x27] @ '']>;'')"
proof (intro conjI)
  show "getNodeComment env description (map fold_directive directives)
     = transformComment env (comment_of_description description) 1"
    by (simp add: getNodeComment_def find_folded_directive)
next
  show "getNodeComment env description directives
         = transformComment env (comment_of_description description) 1
      \<or> getNodeComment env description directives
         = transformComment env
             (CommentString ((if description = None then [] else ''[object Object]'' @ [CHR 0x0A])
                             @ ''@deprecated undefined'')) 1"
  proof (cases "find (\<lambda>v. name_value (dir_name v) = Some ''deprecated'') directives")
    case None
    then show ?thesis by (simp add: getNodeComment_def)
  next
    case (Some d)
    then have "name_value (dir_name d) = Some ''deprecated''"
      by (auto simp: find_Some_iff)
    then have "getDeprecationReason d = None"
      by (rule named_node_has_no_reason)
    then show ?thesis
      using Some by (cases description) (simp_all add: getNodeComment_def)
  qed
next
  show "getDeprecationReason
        \<lparr>dir_name = NameString ''deprecated'',
         dir_arguments = [\<lparr>arg_name = n, arg_value = \<lparr>value_kind = k, value_text = reason\<rparr>\<rparr>]\<rparr>
       = Some k"
    by (simp add: getDeprecationReason_def)
next
  show "fold_field sample_env sample_config
        [AncestorNode DOCUMENT None, AncestorArray [OBJECT_TYPE_DEFINITION],
         AncestorNode OBJECT_TYPE_DEFINITION (Some ''Query'')]
        (AncestorArray [FIELD_DEFINITION])
        \<lparr>fd_description = None, fd_name = ''old'', fd_arguments = [],
         fd_type = NamedType ''Int'', fd_directives = [sample_deprecated]\<rparr>
       = Inr (''  old?: Maybe<Scalars['' @ [CHR 0x27] @ ''Int'' @ [CHR 0x27] @ '']>;'')"
    by (simp add: sample_defs fold_defs)
qed

section \<open>Argument declarations\<close>

text \<open>
  C3 does not hold of the code. The block that \<^verbatim>\<open>buildArgumentsBlock\<close> builds for a field
  with arguments has a kind, a name and a comment, but neither content nor block, and it
  is the same block whatever the arguments of the field are. The last conjunct is
  \<^verbatim>\<open>type Query { user(id: Int): User ... }\<close>.
\<close>

theorem arguments_declaration_without_body:
  "db_block (argumentsDeclaration env node cfg field) = None
   \<and> db_content (argumentsDeclaration env node cfg field) = None
   \<and> argumentsDeclaration env node cfg (field\<lparr>fd_arguments := arguments\<rparr>)
       = argumentsDeclaration env node cfg field
   \<and> buildArgumentsBlock env sample_query sample_config
       = blockString env
           \<lparr>db_enumNameValueSeparator = '' ='', db_ignoreExport = False, db_export = True,
            db_kind = Some ''type'',
            db_name = Some (convertName env
                        (FromString (''Query''
                           @ convertName env (FromNode FIELD_DEFINITION ''user'')
                               (Some \<lparr>opt_useTypesPrefix = Some False,
                                      opt_useTypesSuffix = Some False,
                                      opt_typesPrefix = None, opt_typesSuffix = None\<rparr>)
                           @ ''Args'')) None),
            db_comment = NoComment, db_content = None, db_block = None\<rparr>"
  by (simp add: argumentsDeclaration_def argumentsName_def buildArgumentsBlock_def block_defs
      sample_query_def sample_config_def sample_input_value_def)

end
